theory Spec2Isabelle
  imports
    Main
    "HOL-Library.Word"
    "HOL-Library.Char_ord"
    "HOL-Library.List_Lexorder"
    "HOL-Library.Sublist"
begin

unbundle bit_operations_syntax

section \<open>Data model\<close>

text \<open>
  Text is modelled by \<^typ>\<open>string\<close> over the ASCII range, where a JavaScript code unit,
  an SQLite character and a byte coincide and where \<^verbatim>\<open>String.prototype.toLowerCase\<close>,
  SQLite's \<^verbatim>\<open>LOWER\<close> and the case folding of \<^verbatim>\<open>LIKE\<close> agree.
  A \<^verbatim>\<open>Buffer\<close> is a list of bytes.
\<close>

type_synonym byte = "8 word"
type_synonym buffer = "byte list"

text \<open>\<^verbatim>\<open>AccountRow\<close> of calendar.ts; \<^verbatim>\<open>display_name\<close> is optional (a nullable column).\<close>

record AccountRow =
  id' :: string
  email :: string
  google_user_id :: string
  display_name :: "string option"
  scopes_json :: string

text \<open>
  The columns of table \<^verbatim>\<open>credentials\<close> that \<^verbatim>\<open>getCalendarClient\<close> selects; each is
  nullable in the schema of \<^verbatim>\<open>migrate\<close>.
\<close>

record CredRow =
  refresh_token :: "string option"
  refresh_token_ct :: "buffer option"
  refresh_token_iv :: "buffer option"
  refresh_token_tag :: "buffer option"

text \<open>
  The database after \<^verbatim>\<open>migrate\<close>: the rows of \<^verbatim>\<open>accounts\<close>, in the order in which the
  engine visits them, and the rows of \<^verbatim>\<open>credentials\<close> under their primary key
  \<^verbatim>\<open>account_id\<close>.
\<close>

record DB =
  accounts :: "AccountRow list"
  credentials :: "(string \<times> CredRow) list"

text \<open>
  Errors are values. \<open>Error msg\<close> is \<^verbatim>\<open>throw new Error(msg)\<close> of the repository's own
  code, with the message of the source. \<open>CryptoError\<close> is an exception of
  \<^verbatim>\<open>node:crypto\<close>, \<open>KdfError message code\<close> a failure of \<^verbatim>\<open>crypto.scrypt\<close> with its
  \<^verbatim>\<open>message\<close> and \<^verbatim>\<open>code\<close> properties, \<open>SqliteError\<close> an exception of the database
  engine, \<open>ApiError\<close> a rejection of the remote calendar service.
\<close>

datatype crypto_failure =
    InvalidKeyLength
  | InvalidIV
  | InvalidAuthTagLength
  | NullArgument
  | UnableToAuthenticate

datatype js_error =
    Error string
  | CryptoError crypto_failure
  | KdfError string string
  | SqliteError string
  | ApiError string

text \<open>The messages of the source, under the names the specification gives the error kinds.\<close>

definition NoAccountsError :: js_error where
  "NoAccountsError = Error ''No linked accounts. Use the CLI to add one.''"

definition AmbiguousAccountError_none :: js_error where
  "AmbiguousAccountError_none =
     Error ''Multiple accounts linked. Specify an email or id, or call list_accounts to choose.''"

definition AmbiguousAccountError :: "string \<Rightarrow> string \<Rightarrow> js_error" where
  "AmbiguousAccountError trimmed opts =
     Error (''Multiple accounts match '' @ [CHR 0x27] @ trimmed @ [CHR 0x27] @ '': '' @ opts @
            ''. Provide an exact email or id, or call list_accounts.'')"

definition AccountNotFoundError :: "string \<Rightarrow> js_error" where
  "AccountNotFoundError trimmed =
     Error (''Account not found for '' @ [CHR 0x27] @ trimmed @ [CHR 0x27] @
            ''. Call list_accounts to see available accounts.'')"

definition CredentialsNotFoundError :: js_error where
  "CredentialsNotFoundError = Error ''Account credentials not found''"

definition DatabaseLockedError :: js_error where
  "DatabaseLockedError = Error ''Database is locked and password has not been provided''"

definition ReadOnlyError :: js_error where
  "ReadOnlyError = Error ''Server is in read-only mode''"

definition AuthenticationError :: js_error where
  "AuthenticationError = CryptoError UnableToAuthenticate"

section \<open>Strings\<close>

text \<open>
  \<^verbatim>\<open>String.prototype.trim\<close>: white space and line terminators are removed at both ends
  (in ASCII: TAB, LF, VT, FF, CR and SPACE).
\<close>

definition is_white_space :: "char \<Rightarrow> bool" where
  "is_white_space c \<longleftrightarrow>
     c = CHR 0x09 \<or> c = CHR 0x0A \<or> c = CHR 0x0B \<or> c = CHR 0x0C \<or> c = CHR 0x0D \<or> c = CHR 0x20"

definition trim :: "string \<Rightarrow> string" where
  "trim s = rev (dropWhile is_white_space (rev (dropWhile is_white_space s)))"

text \<open>Case folding of one ASCII character: \<^verbatim>\<open>A\<close>..\<^verbatim>\<open>Z\<close> go to \<^verbatim>\<open>a\<close>..\<^verbatim>\<open>z\<close>.\<close>

definition lower_char :: "char \<Rightarrow> char" where
  "lower_char c =
     (if (65::nat) \<le> of_char c \<and> of_char c \<le> (90::nat) then char_of (of_char c + (32::nat)) else c)"

text \<open>\<^verbatim>\<open>String.prototype.toLowerCase\<close> and SQLite's \<^verbatim>\<open>LOWER\<close>.\<close>

definition toLowerCase :: "string \<Rightarrow> string" where
  "toLowerCase s = map lower_char s"

definition sql_LOWER :: "string \<Rightarrow> string" where
  "sql_LOWER s = map lower_char s"

text \<open>\<^verbatim>\<open>COALESCE(display_name,'')\<close>.\<close>

definition sql_COALESCE :: "string option \<Rightarrow> string \<Rightarrow> string" where
  "sql_COALESCE v d = (case v of None \<Rightarrow> d | Some s \<Rightarrow> s)"

text \<open>
  SQLite's \<^verbatim>\<open>X LIKE P\<close> without an \<^verbatim>\<open>ESCAPE\<close> clause: in the pattern \<^verbatim>\<open>%\<close> matches any
  run of characters, \<^verbatim>\<open>_\<close> matches exactly one character, any other character matches
  itself up to ASCII case. The first argument is the pattern.
\<close>

fun sql_LIKE :: "string \<Rightarrow> string \<Rightarrow> bool" where
  "sql_LIKE [] s = (s = [])"
| "sql_LIKE (p # ps) [] = (p = CHR ''%'' \<and> sql_LIKE ps [])"
| "sql_LIKE (p # ps) (c # cs) =
     (if p = CHR ''%'' then sql_LIKE ps (c # cs) \<or> sql_LIKE (p # ps) cs
      else (p = CHR ''_'' \<or> lower_char p = lower_char c) \<and> sql_LIKE ps cs)"

text \<open>\<^verbatim>\<open>Array.prototype.join\<close>.\<close>

fun join :: "string list \<Rightarrow> string \<Rightarrow> string" where
  "join [] sep = []"
| "join [x] sep = x"
| "join (x # y # ys) sep = x @ sep @ join (y # ys) sep"

section \<open>Effects\<close>

text \<open>
  What a function does besides returning is recorded as a list of effects, in order:
  the statements it sends to the database, the calls of the decryption routine, the
  calls of the key derivation with their memory ceiling, and the requests to the remote
  service. A computation is the pair of its effects and of its result or exception.
\<close>

datatype api_request =
    CalendarList_list
  | Events_list string "string option" "string option" "string option" nat
  | Events_get string string
  | Events_insert string string
  | Events_patch string string string
  | Events_delete string string

text \<open>
  The object that \<^verbatim>\<open>getCalendarClient\<close> returns: an OAuth2 client built from the two
  environment variables and holding the refresh token.
\<close>

record CalendarClient =
  clientId :: string
  clientSecret :: string
  credentials_refresh_token :: string

datatype effect =
    SelectAccounts
  | SelectAccountExact string
  | SelectAccountsLike string
  | SelectCredentials string
  | DecryptCall buffer
  | ScryptCall int
  | ApiCall CalendarClient api_request

type_synonym 'a io = "effect list \<times> (js_error + 'a)"

section \<open>Account resolution (calendar.ts)\<close>

text \<open>\<^verbatim>\<open>SELECT ... FROM accounts ORDER BY email\<close>, with the binary collation.\<close>

definition listAccounts :: "DB \<Rightarrow> AccountRow list io" where
  "listAccounts db = ([SelectAccounts], Inr (sort_key email (accounts db)))"

text \<open>
  \<^verbatim>\<open>SELECT ... FROM accounts WHERE id=? OR email=?\<close> read with \<^verbatim>\<open>get\<close>: the first row that
  satisfies the condition, or \<^verbatim>\<open>undefined\<close>. Which of two such rows comes first is the
  engine's choice; the order of the list stands for it.
\<close>

definition select_exact :: "DB \<Rightarrow> string \<Rightarrow> AccountRow option" where
  "select_exact db k = find (\<lambda>r. id' r = k \<or> email r = k) (accounts db)"

text \<open>
  \<^verbatim>\<open>SELECT ... FROM accounts WHERE LOWER(email) LIKE ? OR LOWER(COALESCE(display_name,'')) LIKE ?
  ORDER BY email\<close> read with \<^verbatim>\<open>all\<close>.
\<close>

definition select_like :: "DB \<Rightarrow> string \<Rightarrow> AccountRow list" where
  "select_like db pat =
     sort_key email
       (filter (\<lambda>r. sql_LIKE pat (sql_LOWER (email r)) \<or>
                    sql_LIKE pat (sql_LOWER (sql_COALESCE (display_name r) [])))
          (accounts db))"

definition resolveAccount :: "DB \<Rightarrow> string option \<Rightarrow> AccountRow io" where
  "resolveAccount db key =
     (let trimmed = trim (case key of None \<Rightarrow> [] | Some k \<Rightarrow> k) in
      if trimmed = [] then
        (case listAccounts db of
           (fx, Inl e) \<Rightarrow> (fx, Inl e)
         | (fx, Inr rows) \<Rightarrow>
             (fx,
              if length rows = 0 then Inl NoAccountsError
              else if length rows = 1 then Inr (rows ! 0)
              else Inl AmbiguousAccountError_none))
      else
        (case select_exact db trimmed of
           Some exact \<Rightarrow> ([SelectAccountExact trimmed], Inr exact)
         | None \<Rightarrow>
             (let like = ''%'' @ toLowerCase trimmed @ ''%'';
                  candidates = select_like db like
              in ([SelectAccountExact trimmed, SelectAccountsLike like],
                  if length candidates = 1 then Inr (candidates ! 0)
                  else if length candidates > 1
                  then Inl (AmbiguousAccountError trimmed (join (map email candidates) '', ''))
                  else Inl (AccountNotFoundError trimmed)))))"

text \<open>\<^verbatim>\<open>searchAccounts\<close>, the lookup behind the tool \<^verbatim>\<open>gcal-resolve_account\<close>.\<close>

definition searchAccounts :: "DB \<Rightarrow> string option \<Rightarrow> AccountRow list io" where
  "searchAccounts db query =
     (let q = toLowerCase (trim (case query of None \<Rightarrow> [] | Some k \<Rightarrow> k)) in
      if q = [] then listAccounts db
      else (let like = ''%'' @ q @ ''%''
            in ([SelectAccountsLike like], Inr (select_like db like))))"


text \<open>
  The fuzzy tier in the words of the specification: the accounts whose case-folded email
  or case-folded display name (a missing one being the empty string) contains the
  case-folded key as a substring, ordered by email.
\<close>

definition spec_fuzzy_matches :: "DB \<Rightarrow> string \<Rightarrow> AccountRow list" where
  "spec_fuzzy_matches d key =
     sort_key email
       (filter (\<lambda>r. sublist (toLowerCase key) (toLowerCase (email r)) \<or>
                    sublist (toLowerCase key) (toLowerCase (sql_COALESCE (display_name r) [])))
          (accounts d))"

text \<open>A key without the two wildcard characters of \<^verbatim>\<open>LIKE\<close>.\<close>

definition wildcard_free :: "string \<Rightarrow> bool" where
  "wildcard_free k \<longleftrightarrow> (\<forall>c \<in> set k. c \<noteq> CHR ''%'' \<and> c \<noteq> CHR ''_'')"

section \<open>AES-256 (FIPS 197), the block cipher behind \<^verbatim>\<open>aes-256-gcm\<close>\<close>

text \<open>
  \<^verbatim>\<open>crypto.createCipheriv('aes-256-gcm', key, iv)\<close> is OpenSSL's AES-256 in Galois/Counter
  mode. The state of AES is a list of 16 bytes in the order of the input block (column
  after column); the expanded key is a list of 60 words of 4 bytes.
\<close>

type_synonym block = "128 word"

definition sbox :: "byte list list" where
  "sbox =
     [[0x63, 0x7c, 0x77, 0x7b, 0xf2, 0x6b, 0x6f, 0xc5, 0x30, 0x01, 0x67, 0x2b, 0xfe, 0xd7, 0xab, 0x76],
      [0xca, 0x82, 0xc9, 0x7d, 0xfa, 0x59, 0x47, 0xf0, 0xad, 0xd4, 0xa2, 0xaf, 0x9c, 0xa4, 0x72, 0xc0],
      [0xb7, 0xfd, 0x93, 0x26, 0x36, 0x3f, 0xf7, 0xcc, 0x34, 0xa5, 0xe5, 0xf1, 0x71, 0xd8, 0x31, 0x15],
      [0x04, 0xc7, 0x23, 0xc3, 0x18, 0x96, 0x05, 0x9a, 0x07, 0x12, 0x80, 0xe2, 0xeb, 0x27, 0xb2, 0x75],
      [0x09, 0x83, 0x2c, 0x1a, 0x1b, 0x6e, 0x5a, 0xa0, 0x52, 0x3b, 0xd6, 0xb3, 0x29, 0xe3, 0x2f, 0x84],
      [0x53, 0xd1, 0x00, 0xed, 0x20, 0xfc, 0xb1, 0x5b, 0x6a, 0xcb, 0xbe, 0x39, 0x4a, 0x4c, 0x58, 0xcf],
      [0xd0, 0xef, 0xaa, 0xfb, 0x43, 0x4d, 0x33, 0x85, 0x45, 0xf9, 0x02, 0x7f, 0x50, 0x3c, 0x9f, 0xa8],
      [0x51, 0xa3, 0x40, 0x8f, 0x92, 0x9d, 0x38, 0xf5, 0xbc, 0xb6, 0xda, 0x21, 0x10, 0xff, 0xf3, 0xd2],
      [0xcd, 0x0c, 0x13, 0xec, 0x5f, 0x97, 0x44, 0x17, 0xc4, 0xa7, 0x7e, 0x3d, 0x64, 0x5d, 0x19, 0x73],
      [0x60, 0x81, 0x4f, 0xdc, 0x22, 0x2a, 0x90, 0x88, 0x46, 0xee, 0xb8, 0x14, 0xde, 0x5e, 0x0b, 0xdb],
      [0xe0, 0x32, 0x3a, 0x0a, 0x49, 0x06, 0x24, 0x5c, 0xc2, 0xd3, 0xac, 0x62, 0x91, 0x95, 0xe4, 0x79],
      [0xe7, 0xc8, 0x37, 0x6d, 0x8d, 0xd5, 0x4e, 0xa9, 0x6c, 0x56, 0xf4, 0xea, 0x65, 0x7a, 0xae, 0x08],
      [0xba, 0x78, 0x25, 0x2e, 0x1c, 0xa6, 0xb4, 0xc6, 0xe8, 0xdd, 0x74, 0x1f, 0x4b, 0xbd, 0x8b, 0x8a],
      [0x70, 0x3e, 0xb5, 0x66, 0x48, 0x03, 0xf6, 0x0e, 0x61, 0x35, 0x57, 0xb9, 0x86, 0xc1, 0x1d, 0x9e],
      [0xe1, 0xf8, 0x98, 0x11, 0x69, 0xd9, 0x8e, 0x94, 0x9b, 0x1e, 0x87, 0xe9, 0xce, 0x55, 0x28, 0xdf],
      [0x8c, 0xa1, 0x89, 0x0d, 0xbf, 0xe6, 0x42, 0x68, 0x41, 0x99, 0x2d, 0x0f, 0xb0, 0x54, 0xbb, 0x16]]"

definition SubByte :: "byte \<Rightarrow> byte" where
  "SubByte b = sbox ! unat (drop_bit 4 b) ! unat (b AND 0x0f)"

definition xtime :: "byte \<Rightarrow> byte" where
  "xtime b = (if bit b 7 then push_bit 1 b XOR 0x1b else push_bit 1 b)"

definition xor_bytes :: "buffer \<Rightarrow> buffer \<Rightarrow> buffer" where
  "xor_bytes xs ys = map2 (XOR) xs ys"

definition SubBytes :: "buffer \<Rightarrow> buffer" where
  "SubBytes s = map SubByte s"

definition ShiftRows :: "buffer \<Rightarrow> buffer" where
  "ShiftRows s = map (\<lambda>i. s ! i) [0, 5, 10, 15, 4, 9, 14, 3, 8, 13, 2, 7, 12, 1, 6, 11]"

definition MixColumn :: "buffer \<Rightarrow> buffer" where
  "MixColumn a =
     [xtime (a ! 0) XOR (xtime (a ! 1) XOR a ! 1) XOR a ! 2 XOR a ! 3,
      a ! 0 XOR xtime (a ! 1) XOR (xtime (a ! 2) XOR a ! 2) XOR a ! 3,
      a ! 0 XOR a ! 1 XOR xtime (a ! 2) XOR (xtime (a ! 3) XOR a ! 3),
      (xtime (a ! 0) XOR a ! 0) XOR a ! 1 XOR a ! 2 XOR xtime (a ! 3)]"

definition MixColumns :: "buffer \<Rightarrow> buffer" where
  "MixColumns s = concat (map (\<lambda>c. MixColumn (take 4 (drop (4 * c) s))) [0, 1, 2, 3])"

definition RotWord :: "buffer \<Rightarrow> buffer" where
  "RotWord w = drop 1 w @ take 1 w"

definition KeyExpansion_temp :: "nat \<Rightarrow> byte \<Rightarrow> buffer \<Rightarrow> buffer" where
  "KeyExpansion_temp i rc temp =
     (if i mod 8 = 0 then xor_bytes (SubBytes (RotWord temp)) [rc, 0, 0, 0]
      else if i mod 8 = 4 then SubBytes temp
      else temp)"

text \<open>
  Words \<open>8\<close> to \<open>59\<close> of the key schedule; \<open>i\<close> is the index of the next word, \<open>rc\<close> the
  round constant, \<open>w\<close> the words so far.
\<close>

fun KeyExpansion_loop :: "nat \<Rightarrow> nat \<Rightarrow> byte \<Rightarrow> buffer list \<Rightarrow> buffer list" where
  "KeyExpansion_loop 0 i rc w = w"
| "KeyExpansion_loop (Suc n) i rc w =
     KeyExpansion_loop n (i + 1) (if i mod 8 = 0 then xtime rc else rc)
       (w @ [xor_bytes (w ! (i - 8)) (KeyExpansion_temp i rc (w ! (i - 1)))])"

definition KeyExpansion :: "buffer \<Rightarrow> buffer list" where
  "KeyExpansion key =
     KeyExpansion_loop 52 8 1 (map (\<lambda>i. take 4 (drop (4 * i) key)) [0, 1, 2, 3, 4, 5, 6, 7])"

definition round_key :: "buffer list \<Rightarrow> nat \<Rightarrow> buffer" where
  "round_key w r = concat (take 4 (drop (4 * r) w))"

definition aes_round :: "buffer list \<Rightarrow> buffer \<Rightarrow> nat \<Rightarrow> buffer" where
  "aes_round w s r = xor_bytes (MixColumns (ShiftRows (SubBytes s))) (round_key w r)"

definition Cipher :: "buffer list \<Rightarrow> buffer \<Rightarrow> buffer" where
  "Cipher w inp =
     xor_bytes
       (ShiftRows (SubBytes
          (foldl (aes_round w) (xor_bytes inp (round_key w 0))
             [1, 2, 3, 4, 5, 6, 7, 8, 9, 10, 11, 12, 13])))
       (round_key w 14)"

text \<open>A block as a 128-bit word, first byte most significant; short input is zero-padded.\<close>

definition block_of_bytes :: "buffer \<Rightarrow> block" where
  "block_of_bytes bs =
     foldl (\<lambda>acc b. push_bit 8 acc OR ucast b) 0
       (take 16 (bs @ [0, 0, 0, 0, 0, 0, 0, 0, 0, 0, 0, 0, 0, 0, 0, 0]))"

definition bytes_of_block :: "block \<Rightarrow> buffer" where
  "bytes_of_block w =
     map (\<lambda>i. ucast (drop_bit (8 * (15 - i)) w))
       [0, 1, 2, 3, 4, 5, 6, 7, 8, 9, 10, 11, 12, 13, 14, 15]"

definition aes256 :: "buffer \<Rightarrow> block \<Rightarrow> block" where
  "aes256 key b = block_of_bytes (Cipher (KeyExpansion key) (bytes_of_block b))"

section \<open>Galois/Counter mode (NIST SP 800-38D)\<close>

text \<open>
  Multiplication in the field of \<^verbatim>\<open>2^128\<close> elements: the bits of \<open>x\<close> are read from the most
  significant one; \<open>z\<close> accumulates, \<open>v\<close> is multiplied by the indeterminate at every step.
\<close>

fun gf_mult_loop :: "nat \<Rightarrow> block \<Rightarrow> block \<Rightarrow> block \<Rightarrow> block" where
  "gf_mult_loop 0 x z v = z"
| "gf_mult_loop (Suc n) x z v =
     gf_mult_loop n x (if bit x n then z XOR v else z)
       (if bit v 0 then drop_bit 1 v XOR push_bit 120 0xE1 else drop_bit 1 v)"

definition gf_mult :: "block \<Rightarrow> block \<Rightarrow> block" where
  "gf_mult x y = gf_mult_loop 128 x 0 y"

fun blocks_of :: "buffer \<Rightarrow> block list" where
  "blocks_of [] = []"
| "blocks_of (b # bs) = block_of_bytes (take 16 (b # bs)) # blocks_of (drop 16 (b # bs))"

definition GHASH :: "block \<Rightarrow> block list \<Rightarrow> block" where
  "GHASH h xs = foldl (\<lambda>y x. gf_mult (y XOR x) h) 0 xs"

definition inc32 :: "block \<Rightarrow> block" where
  "inc32 w = (w AND NOT (mask 32)) OR ((w + 1) AND mask 32)"

text \<open>The pre-counter block: a 96-bit IV is used as it is, any other IV is hashed.\<close>

definition J0 :: "block \<Rightarrow> buffer \<Rightarrow> block" where
  "J0 h iv =
     (if length iv = 12 then block_of_bytes (iv @ [0, 0, 0, 1])
      else GHASH h (blocks_of iv @ [of_nat (8 * length iv)]))"

fun ctr_stream :: "(block \<Rightarrow> block) \<Rightarrow> block \<Rightarrow> nat \<Rightarrow> buffer" where
  "ctr_stream E cb 0 = []"
| "ctr_stream E cb (Suc n) = bytes_of_block (E cb) @ ctr_stream E (inc32 cb) n"

definition GCTR :: "(block \<Rightarrow> block) \<Rightarrow> block \<Rightarrow> buffer \<Rightarrow> buffer" where
  "GCTR E icb xs = xor_bytes xs (ctr_stream E icb ((length xs + 15) div 16))"

text \<open>
  \<open>gcm_crypt\<close> is what \<^verbatim>\<open>update\<close> followed by \<^verbatim>\<open>final\<close> outputs (encryption and
  decryption are the same counter-mode operation); \<open>gcm_tag\<close> is the 16-byte tag over
  the associated data and the ciphertext.
\<close>

definition gcm_crypt :: "buffer \<Rightarrow> buffer \<Rightarrow> buffer \<Rightarrow> buffer" where
  "gcm_crypt key iv xs = GCTR (aes256 key) (inc32 (J0 (aes256 key 0) iv)) xs"

definition gcm_tag :: "buffer \<Rightarrow> buffer \<Rightarrow> buffer \<Rightarrow> buffer \<Rightarrow> buffer" where
  "gcm_tag key iv aad ct =
     bytes_of_block
       (GHASH (aes256 key 0)
          (blocks_of aad @ blocks_of ct @
           [push_bit 64 (of_nat (8 * length aad)) OR of_nat (8 * length ct)])
        XOR aes256 key (J0 (aes256 key 0) iv))"

section \<open>crypto.ts\<close>

text \<open>
  \<^verbatim>\<open>randomBytes(n)\<close>: the first \<open>n\<close> bytes that the generator delivers; the generator is
  the sequence \<open>rng\<close> of the bytes it will deliver.
\<close>

definition randomBytes :: "(nat \<Rightarrow> byte) \<Rightarrow> nat \<Rightarrow> buffer" where
  "randomBytes rng n = map rng [0..<n]"

text \<open>\<^verbatim>\<open>if (aad) cipher.setAAD(aad)\<close>: without the argument no associated data is set.\<close>

definition setAAD :: "buffer option \<Rightarrow> buffer" where
  "setAAD aad = (case aad of None \<Rightarrow> [] | Some a \<Rightarrow> a)"

text \<open>
  \<^verbatim>\<open>encryptAesGcm\<close>. \<^verbatim>\<open>createCipheriv\<close> rejects an empty IV, then a key that has not 32
  bytes. The result is the object \<^verbatim>\<open>{ ct, iv, tag }\<close>, here a triple.
\<close>

definition encryptAesGcm ::
  "(nat \<Rightarrow> byte) \<Rightarrow> buffer \<Rightarrow> buffer \<Rightarrow> buffer option \<Rightarrow> js_error + (buffer \<times> buffer \<times> buffer)"
where
  "encryptAesGcm rng key plaintext aad =
     (let iv = randomBytes rng 12 in
      if iv = [] then Inl (CryptoError InvalidIV)
      else if length key \<noteq> 32 then Inl (CryptoError InvalidKeyLength)
      else Inr (gcm_crypt key iv plaintext, iv,
                gcm_tag key iv (setAAD aad) (gcm_crypt key iv plaintext)))"

text \<open>
  \<^verbatim>\<open>setAuthTag\<close> of a GCM decipher created without \<^verbatim>\<open>authTagLength\<close> accepts the tag
  lengths of SP 800-38D: 4, 8 and 12 to 16 bytes.
\<close>

definition valid_gcm_tag_length :: "nat \<Rightarrow> bool" where
  "valid_gcm_tag_length n \<longleftrightarrow> n = 4 \<or> n = 8 \<or> (12 \<le> n \<and> n \<le> 16)"

text \<open>
  \<^verbatim>\<open>decryptAesGcm\<close>. \<^verbatim>\<open>final\<close> compares the presented tag with as many leading bytes of
  the computed tag and throws when they differ; then no plaintext is returned.
\<close>

definition decryptAesGcm ::
  "buffer \<Rightarrow> buffer \<Rightarrow> buffer \<Rightarrow> buffer \<Rightarrow> buffer option \<Rightarrow> js_error + buffer"
where
  "decryptAesGcm key iv tag ct aad =
     (if iv = [] then Inl (CryptoError InvalidIV)
      else if length key \<noteq> 32 then Inl (CryptoError InvalidKeyLength)
      else if \<not> valid_gcm_tag_length (length tag) then Inl (CryptoError InvalidAuthTagLength)
      else if take (length tag) (gcm_tag key iv (setAAD aad) ct) \<noteq> tag
      then Inl (CryptoError UnableToAuthenticate)
      else Inr (gcm_crypt key iv ct))"

text \<open>
  \<^verbatim>\<open>KdfParams\<close>; the fields \<^verbatim>\<open>N\<close>, \<^verbatim>\<open>r\<close>, \<^verbatim>\<open>p\<close>, \<^verbatim>\<open>dkLen\<close> carry the prefix \<open>param_\<close>.
  JavaScript numbers are taken as integers, which they are, exactly, below \<^verbatim>\<open>2^53\<close>.
\<close>

record KdfParams =
  param_N :: int
  param_r :: int
  param_p :: int
  param_dkLen :: int

text \<open>
  \<^verbatim>\<open>crypto.scrypt(password, salt, keylen, { N, r, p, maxmem }, callback)\<close> is a parameter
  of the model: a function that yields the derived key or the \<^verbatim>\<open>message\<close> and \<^verbatim>\<open>code\<close>
  of its error.
\<close>

type_synonym scrypt_fn =
  "string \<Rightarrow> buffer \<Rightarrow> int \<Rightarrow> int \<Rightarrow> int \<Rightarrow> int \<Rightarrow> int \<Rightarrow> (string \<times> string) + buffer"

text \<open>\<^verbatim>\<open>/pattern/i.test(s)\<close> for a pattern of plain characters.\<close>

definition regex_test_i :: "string \<Rightarrow> string \<Rightarrow> bool" where
  "regex_test_i pat s = sublist (toLowerCase pat) (toLowerCase s)"

text \<open>
  The condition of the \<^verbatim>\<open>catch\<close> block: \<^verbatim>\<open>msg\<close> is \<^verbatim>\<open>String(e?.message || e || '')\<close>, which
  for an error without message is the name of the error.
\<close>

definition memory_limit_exceeded :: "string \<Rightarrow> string \<Rightarrow> bool" where
  "memory_limit_exceeded message code =
     (let msg = (if message = [] then ''Error'' else message) in
      regex_test_i ''memory limit exceeded'' msg \<or>
      regex_test_i ''ERR_CRYPTO_SCRYPT_INVALID_PARAMETER'' code)"

definition tryOnce :: "scrypt_fn \<Rightarrow> string \<Rightarrow> buffer \<Rightarrow> KdfParams \<Rightarrow> int \<Rightarrow> (string \<times> string) + buffer" where
  "tryOnce scrypt password salt params maxmem =
     scrypt password salt (param_dkLen params) (param_N params) (param_r params)
       (param_p params) maxmem"

definition deriveKek :: "scrypt_fn \<Rightarrow> string \<Rightarrow> buffer \<Rightarrow> KdfParams \<Rightarrow> buffer io" where
  "deriveKek scrypt password salt params =
     (let estimated = 128 * param_N params * param_r params;
          baseMax = 64 * 1024 * 1024
      in case tryOnce scrypt password salt params (max baseMax (estimated * 2)) of
           Inr k \<Rightarrow> ([ScryptCall (max baseMax (estimated * 2))], Inr k)
         | Inl (message, code) \<Rightarrow>
             if memory_limit_exceeded message code
             then ([ScryptCall (max baseMax (estimated * 2)),
                    ScryptCall (max (baseMax * 4) (estimated * 8))],
                   case tryOnce scrypt password salt params (max (baseMax * 4) (estimated * 8)) of
                     Inr k \<Rightarrow> Inr k
                   | Inl (message', code') \<Rightarrow> Inl (KdfError message' code'))
             else ([ScryptCall (max baseMax (estimated * 2))], Inl (KdfError message code)))"

section \<open>calendar.ts: credentials and calendar operations\<close>

record CalendarConfig =
  db :: DB
  dek :: "buffer option"
  readOnly :: "bool option"

text \<open>\<^verbatim>\<open>process.env.GOOGLE_CLIENT_ID\<close> and \<^verbatim>\<open>process.env.GOOGLE_CLIENT_SECRET\<close>.\<close>

record Env =
  GOOGLE_CLIENT_ID :: "string option"
  GOOGLE_CLIENT_SECRET :: "string option"

text \<open>\<^verbatim>\<open>Buffer.from(s)\<close> and \<^verbatim>\<open>buf.toString('utf8')\<close> on ASCII text.\<close>

definition Buffer_from :: "string \<Rightarrow> buffer" where
  "Buffer_from s = map (\<lambda>c. of_nat (of_char c)) s"

definition toString_utf8 :: "buffer \<Rightarrow> string" where
  "toString_utf8 bs = map (\<lambda>b. char_of (unat b)) bs"

text \<open>\<^verbatim>\<open>x || ''\<close> on an optional string.\<close>

definition or_empty :: "string option \<Rightarrow> string" where
  "or_empty v = (case v of None \<Rightarrow> [] | Some s \<Rightarrow> s)"

text \<open>The associated data of an account: \<^verbatim>\<open>`credentials.refresh_token:${accountId}:v1`\<close>.\<close>

definition credentials_aad :: "string \<Rightarrow> buffer" where
  "credentials_aad accountId = Buffer_from (''credentials.refresh_token:'' @ accountId @ '':v1'')"

text \<open>
  \<^verbatim>\<open>SELECT ... FROM credentials WHERE account_id=?\<close> read with \<^verbatim>\<open>get\<close>.
\<close>

definition select_credentials :: "DB \<Rightarrow> string \<Rightarrow> CredRow option" where
  "select_credentials d accountId = map_of (credentials d) accountId"

text \<open>
  The refresh token of \<^verbatim>\<open>getCalendarClient\<close>, with the effects of the lookup. A column
  that is \<^verbatim>\<open>NULL\<close> reaches \<^verbatim>\<open>decryptAesGcm\<close> as \<^verbatim>\<open>null\<close>, which \<^verbatim>\<open>node:crypto\<close> rejects.
\<close>

definition read_refresh_token :: "CalendarConfig \<Rightarrow> string \<Rightarrow> string io" where
  "read_refresh_token cfg accountId =
     (case select_credentials (db cfg) accountId of
        None \<Rightarrow> ([SelectCredentials accountId], Inl CredentialsNotFoundError)
      | Some cred \<Rightarrow>
          (if refresh_token cred \<noteq> None \<and> refresh_token cred \<noteq> Some []
           then ([SelectCredentials accountId], Inr (the (refresh_token cred)))
           else (case dek cfg of
                   None \<Rightarrow> ([SelectCredentials accountId], Inl DatabaseLockedError)
                 | Some k \<Rightarrow>
                     ([SelectCredentials accountId, DecryptCall (credentials_aad accountId)],
                      (case (refresh_token_iv cred, refresh_token_tag cred, refresh_token_ct cred) of
                         (Some iv, Some tag, Some ct) \<Rightarrow>
                           (case decryptAesGcm k iv tag ct (Some (credentials_aad accountId)) of
                              Inl e \<Rightarrow> Inl e
                            | Inr pt \<Rightarrow> Inr (toString_utf8 pt))
                       | _ \<Rightarrow> Inl (CryptoError NullArgument))))))"

definition getCalendarClient :: "CalendarConfig \<Rightarrow> Env \<Rightarrow> string \<Rightarrow> CalendarClient io" where
  "getCalendarClient cfg env accountId =
     (case read_refresh_token cfg accountId of
        (fx, Inl e) \<Rightarrow> (fx, Inl e)
      | (fx, Inr refreshToken) \<Rightarrow>
          (fx, Inr \<lparr>clientId = or_empty (GOOGLE_CLIENT_ID env),
                    clientSecret = or_empty (GOOGLE_CLIENT_SECRET env),
                    credentials_refresh_token = refreshToken\<rparr>))"

text \<open>
  The remote calendar service is a parameter: what it answers to a request made with a
  client. The answer carries \<^verbatim>\<open>resp.data\<close> and \<^verbatim>\<open>resp.data.items\<close>, as opaque text.
\<close>

record ApiResponse =
  data :: string
  data_items :: "string list option"

type_synonym remote = "CalendarClient \<Rightarrow> api_request \<Rightarrow> js_error + ApiResponse"

text \<open>A request made after \<^verbatim>\<open>getCalendarClient\<close> succeeded.\<close>

definition with_client ::
  "CalendarConfig \<Rightarrow> Env \<Rightarrow> remote \<Rightarrow> string \<Rightarrow> api_request \<Rightarrow> ApiResponse io" where
  "with_client cfg env api accountId req =
     (case getCalendarClient cfg env accountId of
        (fx, Inl e) \<Rightarrow> (fx, Inl e)
      | (fx, Inr client) \<Rightarrow> (fx @ [ApiCall client req], api client req))"

definition map_io :: "('a \<Rightarrow> 'b) \<Rightarrow> 'a io \<Rightarrow> 'b io" where
  "map_io f m = (case m of (fx, Inl e) \<Rightarrow> (fx, Inl e) | (fx, Inr x) \<Rightarrow> (fx, Inr (f x)))"

text \<open>\<^verbatim>\<open>opts.maxResults || 50\<close> and \<^verbatim>\<open>resp.data.items || []\<close>.\<close>

definition maxResults_or_50 :: "nat option \<Rightarrow> nat" where
  "maxResults_or_50 m = (case m of None \<Rightarrow> 50 | Some n \<Rightarrow> if n = 0 then 50 else n)"

definition items_or_empty :: "ApiResponse \<Rightarrow> string list" where
  "items_or_empty resp = (case data_items resp of None \<Rightarrow> [] | Some xs \<Rightarrow> xs)"

definition listCalendars :: "CalendarConfig \<Rightarrow> Env \<Rightarrow> remote \<Rightarrow> string \<Rightarrow> string list io" where
  "listCalendars cfg env api accountId =
     map_io items_or_empty (with_client cfg env api accountId CalendarList_list)"

definition listEvents ::
  "CalendarConfig \<Rightarrow> Env \<Rightarrow> remote \<Rightarrow> string \<Rightarrow> string \<Rightarrow>
   string option \<Rightarrow> string option \<Rightarrow> string option \<Rightarrow> nat option \<Rightarrow> string list io" where
  "listEvents cfg env api accountId calendarId q timeMin timeMax maxResults =
     map_io items_or_empty
       (with_client cfg env api accountId
          (Events_list calendarId q timeMin timeMax (maxResults_or_50 maxResults)))"

definition getEvent ::
  "CalendarConfig \<Rightarrow> Env \<Rightarrow> remote \<Rightarrow> string \<Rightarrow> string \<Rightarrow> string \<Rightarrow> string io" where
  "getEvent cfg env api accountId calendarId eventId =
     map_io data (with_client cfg env api accountId (Events_get calendarId eventId))"

definition createEvent ::
  "CalendarConfig \<Rightarrow> Env \<Rightarrow> remote \<Rightarrow> string \<Rightarrow> string \<Rightarrow> string \<Rightarrow> string io" where
  "createEvent cfg env api accountId calendarId event =
     (if readOnly cfg = Some True then ([], Inl ReadOnlyError)
      else map_io data (with_client cfg env api accountId (Events_insert calendarId event)))"

definition updateEvent ::
  "CalendarConfig \<Rightarrow> Env \<Rightarrow> remote \<Rightarrow> string \<Rightarrow> string \<Rightarrow> string \<Rightarrow> string \<Rightarrow> string io" where
  "updateEvent cfg env api accountId calendarId eventId patch =
     (if readOnly cfg = Some True then ([], Inl ReadOnlyError)
      else map_io data (with_client cfg env api accountId (Events_patch calendarId eventId patch)))"

text \<open>The result \<^verbatim>\<open>{ ok: true }\<close> is the value \<open>True\<close>.\<close>

definition deleteEvent ::
  "CalendarConfig \<Rightarrow> Env \<Rightarrow> remote \<Rightarrow> string \<Rightarrow> string \<Rightarrow> string \<Rightarrow> bool io" where
  "deleteEvent cfg env api accountId calendarId eventId =
     (if readOnly cfg = Some True then ([], Inl ReadOnlyError)
      else map_io (\<lambda>_. True) (with_client cfg env api accountId (Events_delete calendarId eventId)))"

text \<open>\<^verbatim>\<open>const cfg: CalendarConfig = { db, dek, readOnly }\<close> of \<^verbatim>\<open>buildTools\<close>.\<close>

definition buildTools_cfg :: "DB \<Rightarrow> buffer option \<Rightarrow> bool \<Rightarrow> CalendarConfig" where
  "buildTools_cfg d k ro = \<lparr>db = d, dek = k, readOnly = Some ro\<rparr>"

section \<open>db.ts: transactions\<close>

text \<open>
  One connection to the store: the persisted state and, while a transaction is open, the
  state the transaction works on. A mutation is a statement that changes the state or
  fails without changing it.
\<close>

record 's Connection =
  persisted :: 's
  txn :: "'s option"

type_synonym 's mutation = "'s \<Rightarrow> js_error + 's"

definition exec_BEGIN :: "'s Connection \<Rightarrow> js_error + 's Connection" where
  "exec_BEGIN c =
     (case txn c of
        Some w \<Rightarrow> Inl (SqliteError ''cannot start a transaction within a transaction'')
      | None \<Rightarrow> Inr (c\<lparr>txn := Some (persisted c)\<rparr>))"

text \<open>
  \<^verbatim>\<open>COMMIT\<close> can be refused by the engine (a deferred constraint, a busy database);
  \<open>refuse\<close> gives the error for the state to be committed, if any. The transaction then
  stays open.
\<close>

definition exec_COMMIT :: "('s \<Rightarrow> js_error option) \<Rightarrow> 's Connection \<Rightarrow> js_error + 's Connection" where
  "exec_COMMIT refuse c =
     (case txn c of
        None \<Rightarrow> Inl (SqliteError ''cannot commit - no transaction is active'')
      | Some w \<Rightarrow>
          (case refuse w of
             Some e \<Rightarrow> Inl e
           | None \<Rightarrow> Inr \<lparr>persisted = w, txn = None\<rparr>))"

definition exec_ROLLBACK :: "'s Connection \<Rightarrow> js_error + 's Connection" where
  "exec_ROLLBACK c =
     (case txn c of
        None \<Rightarrow> Inl (SqliteError ''cannot rollback - no transaction is active'')
      | Some w \<Rightarrow> Inr (c\<lparr>txn := None\<rparr>))"

text \<open>
  \<^verbatim>\<open>run\<close>: one statement, on the open transaction if there is one, on the persisted
  state otherwise.
\<close>

definition run :: "'s Connection \<Rightarrow> 's mutation \<Rightarrow> js_error + 's Connection" where
  "run c m =
     (case txn c of
        Some w \<Rightarrow> (case m w of Inl e \<Rightarrow> Inl e | Inr w' \<Rightarrow> Inr (c\<lparr>txn := Some w'\<rparr>))
      | None \<Rightarrow> (case m (persisted c) of Inl e \<Rightarrow> Inl e | Inr s' \<Rightarrow> Inr (c\<lparr>persisted := s'\<rparr>)))"

text \<open>
  A body \<^verbatim>\<open>fn\<close>: statements awaited in order, then the value \<open>out\<close>; the first statement
  that fails throws.
\<close>

fun run_body :: "'s Connection \<Rightarrow> 's mutation list \<Rightarrow> 'a \<Rightarrow> 's Connection \<times> (js_error + 'a)" where
  "run_body c [] out = (c, Inr out)"
| "run_body c (m # ms) out =
     (case run c m of Inl e \<Rightarrow> (c, Inl e) | Inr c' \<Rightarrow> run_body c' ms out)"

text \<open>
  \<^verbatim>\<open>tx\<close>: \<^verbatim>\<open>BEGIN IMMEDIATE\<close> outside the \<^verbatim>\<open>try\<close>; the body and \<^verbatim>\<open>COMMIT\<close> inside; the
  \<^verbatim>\<open>catch\<close> block attempts \<^verbatim>\<open>ROLLBACK\<close>, ignores its failure and rethrows.
\<close>

definition catch_rollback :: "'s Connection \<Rightarrow> 's Connection" where
  "catch_rollback c = (case exec_ROLLBACK c of Inl e \<Rightarrow> c | Inr c' \<Rightarrow> c')"

definition tx ::
  "('s \<Rightarrow> js_error option) \<Rightarrow> 's Connection \<Rightarrow> 's mutation list \<Rightarrow> 'a \<Rightarrow>
   's Connection \<times> (js_error + 'a)" where
  "tx refuse c fn out =
     (case exec_BEGIN c of
        Inl e \<Rightarrow> (c, Inl e)
      | Inr c1 \<Rightarrow>
          (case run_body c1 fn out of
             (c2, Inl e) \<Rightarrow> (catch_rollback c2, Inl e)
           | (c2, Inr v) \<Rightarrow>
               (case exec_COMMIT refuse c2 of
                  Inl e \<Rightarrow> (catch_rollback c2, Inl e)
                | Inr c3 \<Rightarrow> (c3, Inr v))))"

text \<open>The mutations of a body applied in order to a state, stopping at the first failure.\<close>

fun apply_all :: "'s mutation list \<Rightarrow> 's \<Rightarrow> js_error + 's" where
  "apply_all [] s = Inr s"
| "apply_all (m # ms) s = (case m s of Inl e \<Rightarrow> Inl e | Inr s' \<Rightarrow> apply_all ms s')"


section \<open>Example inputs\<close>

text \<open>
  Two accounts such that the email of the first is, up to case, contained in the email and
  in the display name of the second.
\<close>

definition acct_a :: AccountRow where
  "acct_a = \<lparr>id' = ''1'', email = ''a@x.com'', google_user_id = ''g1'',
     display_name = None, scopes_json = ''[]''\<rparr>"

definition acct_ba :: AccountRow where
  "acct_ba = \<lparr>id' = ''2'', email = ''ba@x.com'', google_user_id = ''g2'',
     display_name = Some ''A@X.COM'', scopes_json = ''[]''\<rparr>"

definition db_two :: DB where
  "db_two = \<lparr>accounts = [acct_a, acct_ba], credentials = []\<rparr>"

definition db_one :: DB where
  "db_one = \<lparr>accounts = [acct_a], credentials = []\<rparr>"

definition db_none :: DB where
  "db_none = \<lparr>accounts = [], credentials = []\<rparr>"

text \<open>Two accounts, one with an underscore in its email.\<close>

definition acct_underscore :: AccountRow where
  "acct_underscore = \<lparr>id' = ''1'', email = ''a_b@x.com'', google_user_id = ''g1'',
     display_name = None, scopes_json = ''[]''\<rparr>"

definition acct_other :: AccountRow where
  "acct_other = \<lparr>id' = ''2'', email = ''acb@x.com'', google_user_id = ''g2'',
     display_name = None, scopes_json = ''[]''\<rparr>"

definition db_wild :: DB where
  "db_wild = \<lparr>accounts = [acct_other, acct_underscore], credentials = []\<rparr>"

text \<open>
  A key of 32 zero bytes, a generator that delivers zero bytes (so the IV is \<open>IV0\<close>), a
  secret of 32 characters and the associated data of account \<^verbatim>\<open>A\<close>. \<open>CT0\<close> and \<open>TAG0\<close>
  are the ciphertext and the tag of the secret; \<open>CT1\<close> differs from \<open>CT0\<close> in the first bit
  of its first block and in 47 bits of its second block; \<open>P1\<close> differs from \<open>P0\<close> in the
  same bits. \<open>W0\<close> is the key schedule of \<open>K0\<close>, \<open>TAG0_B\<close> the tag of \<open>CT0\<close> under the
  associated data of account \<^verbatim>\<open>B\<close>, \<open>TAG0_altered\<close> is \<open>TAG0\<close> with one bit flipped.
\<close>

definition K0 :: buffer where
  "K0 = [0x00, 0x00, 0x00, 0x00, 0x00, 0x00, 0x00, 0x00, 0x00, 0x00, 0x00, 0x00, 0x00, 0x00, 0x00, 0x00,
      0x00, 0x00, 0x00, 0x00, 0x00, 0x00, 0x00, 0x00, 0x00, 0x00, 0x00, 0x00, 0x00, 0x00, 0x00, 0x00]"

definition IV0 :: buffer where
  "IV0 = [0x00, 0x00, 0x00, 0x00, 0x00, 0x00, 0x00, 0x00, 0x00, 0x00, 0x00, 0x00]"

definition rng_zero :: "nat \<Rightarrow> byte" where
  "rng_zero i = 0"

definition P0 :: buffer where
  "P0 = [0x30, 0x31, 0x32, 0x33, 0x34, 0x35, 0x36, 0x37, 0x38, 0x39, 0x61, 0x62, 0x63, 0x64, 0x65, 0x66,
      0x30, 0x31, 0x32, 0x33, 0x34, 0x35, 0x36, 0x37, 0x38, 0x39, 0x61, 0x62, 0x63, 0x64, 0x65, 0x66]"

definition AAD0 :: buffer where
  "AAD0 = credentials_aad ''A''"

definition CT0 :: buffer where
  "CT0 = [0xfe, 0x96, 0x72, 0x0e, 0x79, 0x55, 0x5d, 0x59, 0x3f, 0x77, 0xa4, 0xb1, 0xd9, 0x97, 0xf8, 0x7e,
      0x42, 0x51, 0x31, 0xf9, 0x03, 0x93, 0x1c, 0x43, 0xe9, 0x9b, 0x94, 0xec, 0x16, 0x62, 0x50, 0xe8]"

definition TAG0 :: buffer where
  "TAG0 = [0xa8, 0x17, 0x7b, 0x92, 0x75, 0x6a, 0xc7, 0x3b, 0x57, 0x90, 0x5a, 0x69, 0x74, 0x4b, 0x1f, 0x0c]"



definition W0 :: "buffer list" where
  "W0 = [[0x00, 0x00, 0x00, 0x00], [0x00, 0x00, 0x00, 0x00], [0x00, 0x00, 0x00, 0x00], [0x00, 0x00, 0x00, 0x00],
      [0x00, 0x00, 0x00, 0x00], [0x00, 0x00, 0x00, 0x00], [0x00, 0x00, 0x00, 0x00], [0x00, 0x00, 0x00, 0x00],
      [0x62, 0x63, 0x63, 0x63], [0x62, 0x63, 0x63, 0x63], [0x62, 0x63, 0x63, 0x63], [0x62, 0x63, 0x63, 0x63],
      [0xaa, 0xfb, 0xfb, 0xfb], [0xaa, 0xfb, 0xfb, 0xfb], [0xaa, 0xfb, 0xfb, 0xfb], [0xaa, 0xfb, 0xfb, 0xfb],
      [0x6f, 0x6c, 0x6c, 0xcf], [0x0d, 0x0f, 0x0f, 0xac], [0x6f, 0x6c, 0x6c, 0xcf], [0x0d, 0x0f, 0x0f, 0xac],
      [0x7d, 0x8d, 0x8d, 0x6a], [0xd7, 0x76, 0x76, 0x91], [0x7d, 0x8d, 0x8d, 0x6a], [0xd7, 0x76, 0x76, 0x91],
      [0x53, 0x54, 0xed, 0xc1], [0x5e, 0x5b, 0xe2, 0x6d], [0x31, 0x37, 0x8e, 0xa2], [0x3c, 0x38, 0x81, 0x0e],
      [0x96, 0x8a, 0x81, 0xc1], [0x41, 0xfc, 0xf7, 0x50], [0x3c, 0x71, 0x7a, 0x3a], [0xeb, 0x07, 0x0c, 0xab],
      [0x9e, 0xaa, 0x8f, 0x28], [0xc0, 0xf1, 0x6d, 0x45], [0xf1, 0xc6, 0xe3, 0xe7], [0xcd, 0xfe, 0x62, 0xe9],
      [0x2b, 0x31, 0x2b, 0xdf], [0x6a, 0xcd, 0xdc, 0x8f], [0x56, 0xbc, 0xa6, 0xb5], [0xbd, 0xbb, 0xaa, 0x1e],
      [0x64, 0x06, 0xfd, 0x52], [0xa4, 0xf7, 0x90, 0x17], [0x55, 0x31, 0x73, 0xf0], [0x98, 0xcf, 0x11, 0x19],
      [0x6d, 0xbb, 0xa9, 0x0b], [0x07, 0x76, 0x75, 0x84], [0x51, 0xca, 0xd3, 0x31], [0xec, 0x71, 0x79, 0x2f],
      [0xe7, 0xb0, 0xe8, 0x9c], [0x43, 0x47, 0x78, 0x8b], [0x16, 0x76, 0x0b, 0x7b], [0x8e, 0xb9, 0x1a, 0x62],
      [0x74, 0xed, 0x0b, 0xa1], [0x73, 0x9b, 0x7e, 0x25], [0x22, 0x51, 0xad, 0x14], [0xce, 0x20, 0xd4, 0x3b],
      [0x10, 0xf8, 0x0a, 0x17], [0x53, 0xbf, 0x72, 0x9c], [0x45, 0xc9, 0x79, 0xe7], [0xcb, 0x70, 0x63, 0x85]]"


definition TAG0_altered :: buffer where
  "TAG0_altered = [0xa9, 0x17, 0x7b, 0x92, 0x75, 0x6a, 0xc7, 0x3b, 0x57, 0x90, 0x5a, 0x69, 0x74, 0x4b, 0x1f, 0x0c]"

text \<open>
  Known answers: the key and the key schedule of example C.3 of FIPS 197, and the plaintext
  block, ciphertext block and tag of test case 14 of the GCM specification (key \<open>K0\<close>, IV
  \<open>IV0\<close>, no associated data).
\<close>

definition K_fips :: buffer where
  "K_fips = [0x00, 0x01, 0x02, 0x03, 0x04, 0x05, 0x06, 0x07, 0x08, 0x09, 0x0a, 0x0b, 0x0c, 0x0d, 0x0e, 0x0f,
      0x10, 0x11, 0x12, 0x13, 0x14, 0x15, 0x16, 0x17, 0x18, 0x19, 0x1a, 0x1b, 0x1c, 0x1d, 0x1e, 0x1f]"

definition W_fips :: "buffer list" where
  "W_fips = [[0x00, 0x01, 0x02, 0x03], [0x04, 0x05, 0x06, 0x07], [0x08, 0x09, 0x0a, 0x0b], [0x0c, 0x0d, 0x0e, 0x0f],
      [0x10, 0x11, 0x12, 0x13], [0x14, 0x15, 0x16, 0x17], [0x18, 0x19, 0x1a, 0x1b], [0x1c, 0x1d, 0x1e, 0x1f],
      [0xa5, 0x73, 0xc2, 0x9f], [0xa1, 0x76, 0xc4, 0x98], [0xa9, 0x7f, 0xce, 0x93], [0xa5, 0x72, 0xc0, 0x9c],
      [0x16, 0x51, 0xa8, 0xcd], [0x02, 0x44, 0xbe, 0xda], [0x1a, 0x5d, 0xa4, 0xc1], [0x06, 0x40, 0xba, 0xde],
      [0xae, 0x87, 0xdf, 0xf0], [0x0f, 0xf1, 0x1b, 0x68], [0xa6, 0x8e, 0xd5, 0xfb], [0x03, 0xfc, 0x15, 0x67],
      [0x6d, 0xe1, 0xf1, 0x48], [0x6f, 0xa5, 0x4f, 0x92], [0x75, 0xf8, 0xeb, 0x53], [0x73, 0xb8, 0x51, 0x8d],
      [0xc6, 0x56, 0x82, 0x7f], [0xc9, 0xa7, 0x99, 0x17], [0x6f, 0x29, 0x4c, 0xec], [0x6c, 0xd5, 0x59, 0x8b],
      [0x3d, 0xe2, 0x3a, 0x75], [0x52, 0x47, 0x75, 0xe7], [0x27, 0xbf, 0x9e, 0xb4], [0x54, 0x07, 0xcf, 0x39],
      [0x0b, 0xdc, 0x90, 0x5f], [0xc2, 0x7b, 0x09, 0x48], [0xad, 0x52, 0x45, 0xa4], [0xc1, 0x87, 0x1c, 0x2f],
      [0x45, 0xf5, 0xa6, 0x60], [0x17, 0xb2, 0xd3, 0x87], [0x30, 0x0d, 0x4d, 0x33], [0x64, 0x0a, 0x82, 0x0a],
      [0x7c, 0xcf, 0xf7, 0x1c], [0xbe, 0xb4, 0xfe, 0x54], [0x13, 0xe6, 0xbb, 0xf0], [0xd2, 0x61, 0xa7, 0xdf],
      [0xf0, 0x1a, 0xfa, 0xfe], [0xe7, 0xa8, 0x29, 0x79], [0xd7, 0xa5, 0x64, 0x4a], [0xb3, 0xaf, 0xe6, 0x40],
      [0x25, 0x41, 0xfe, 0x71], [0x9b, 0xf5, 0x00, 0x25], [0x88, 0x13, 0xbb, 0xd5], [0x5a, 0x72, 0x1c, 0x0a],
      [0x4e, 0x5a, 0x66, 0x99], [0xa9, 0xf2, 0x4f, 0xe0], [0x7e, 0x57, 0x2b, 0xaa], [0xcd, 0xf8, 0xcd, 0xea],
      [0x24, 0xfc, 0x79, 0xcc], [0xbf, 0x09, 0x79, 0xe9], [0x37, 0x1a, 0xc2, 0x3c], [0x6d, 0x68, 0xde, 0x36]]"

definition P_zero :: buffer where
  "P_zero = [0x00, 0x00, 0x00, 0x00, 0x00, 0x00, 0x00, 0x00, 0x00, 0x00, 0x00, 0x00, 0x00, 0x00, 0x00, 0x00]"

definition CT_case14 :: buffer where
  "CT_case14 = [0xce, 0xa7, 0x40, 0x3d, 0x4d, 0x60, 0x6b, 0x6e, 0x07, 0x4e, 0xc5, 0xd3, 0xba, 0xf3, 0x9d, 0x18]"

definition TAG_case14 :: buffer where
  "TAG_case14 = [0xd0, 0xd1, 0xc8, 0xa7, 0x99, 0x99, 0x6b, 0xf0, 0x26, 0x5b, 0x98, 0xb5, 0xd4, 0x8a, 0xb9, 0x19]"

text \<open>Credential rows and configurations.\<close>

definition env0 :: Env where
  "env0 = \<lparr>GOOGLE_CLIENT_ID = Some ''client-id'', GOOGLE_CLIENT_SECRET = None\<rparr>"

definition api0 :: remote where
  "api0 client req = Inr \<lparr>data = ''{}'', data_items = Some [''{}'']\<rparr>"

definition row_plain :: CredRow where
  "row_plain = \<lparr>refresh_token = Some ''1//token'', refresh_token_ct = None,
     refresh_token_iv = None, refresh_token_tag = None\<rparr>"

definition row_encrypted :: CredRow where
  "row_encrypted = \<lparr>refresh_token = None, refresh_token_ct = Some CT0,
     refresh_token_iv = Some IV0, refresh_token_tag = Some TAG0\<rparr>"

definition row_tampered :: CredRow where
  "row_tampered = \<lparr>refresh_token = None, refresh_token_ct = Some CT0,
     refresh_token_iv = Some IV0, refresh_token_tag = Some TAG0_altered\<rparr>"

definition row_both :: CredRow where
  "row_both = \<lparr>refresh_token = Some ''1//token'', refresh_token_ct = Some CT0,
     refresh_token_iv = Some IV0, refresh_token_tag = Some TAG0\<rparr>"

definition row_empty_plaintext :: CredRow where
  "row_empty_plaintext = \<lparr>refresh_token = Some [], refresh_token_ct = Some CT0,
     refresh_token_iv = Some IV0, refresh_token_tag = Some TAG0\<rparr>"

definition db_cred :: DB where
  "db_cred = \<lparr>accounts = [], credentials = [(''A'', row_encrypted), (''P'', row_plain)]\<rparr>"

definition db_cred_tampered :: DB where
  "db_cred_tampered = \<lparr>accounts = [], credentials = [(''A'', row_tampered)]\<rparr>"

definition db_cred_both :: DB where
  "db_cred_both =
     \<lparr>accounts = [], credentials = [(''A'', row_both), (''E'', row_empty_plaintext)]\<rparr>"

definition cfg_ro :: CalendarConfig where
  "cfg_ro = buildTools_cfg \<lparr>accounts = [acct_a], credentials = [(''1'', row_plain)]\<rparr> None True"

text \<open>
  Key derivations: one that needs \<open>required\<close> bytes and fails below that ceiling with
  the memory-limit message, and one that refuses its parameters.
\<close>

definition scrypt_limited :: "int \<Rightarrow> scrypt_fn" where
  "scrypt_limited required password salt keylen n r p maxmem =
     (if maxmem < required then Inl (''Invalid scrypt params: memory limit exceeded'', [])
      else Inr (replicate (nat keylen) 0))"

definition scrypt_refusing :: scrypt_fn where
  "scrypt_refusing password salt keylen n r p maxmem = Inl (''Invalid scrypt parameter'', [])"

definition params0 :: KdfParams where
  "params0 = \<lparr>param_N = 1048576, param_r = 8, param_p = 1, param_dkLen = 2\<rparr>"

text \<open>A table of numbers with a uniqueness constraint, and an engine that never refuses.\<close>

definition add_row :: "nat \<Rightarrow> nat list mutation" where
  "add_row n s = (if n \<in> set s then Inl (SqliteError ''UNIQUE constraint failed'') else Inr (s @ [n]))"

definition never_refuse :: "nat list \<Rightarrow> js_error option" where
  "never_refuse s = None"

definition refuse_long :: "nat list \<Rightarrow> js_error option" where
  "refuse_long s = (if length s > 2 then Some (SqliteError ''database is locked'') else None)"

section \<open>Account resolution: properties\<close>

text \<open>
  Claim C3. When the key is omitted or empty after trimming, resolution reads the list of
  accounts only; it fails with the no-accounts error if no account is stored, returns the
  only account if exactly one is stored, and fails with the ambiguity error that lists no
  candidate if more than one is stored.
\<close>

theorem resolveAccount_empty_key:
  assumes "trim (case key of None \<Rightarrow> [] | Some k \<Rightarrow> k) = []"
  shows "resolveAccount d key =
           ([SelectAccounts],
            case accounts d of
              [] \<Rightarrow> Inl NoAccountsError
            | [a] \<Rightarrow> Inr a
            | _ \<Rightarrow> Inl AmbiguousAccountError_none)"
  using assms
  by (cases "accounts d"; cases "tl (accounts d)")
     (auto simp: resolveAccount_def listAccounts_def Let_def split: list.splits)

theorem resolveAccount_empty_key_witness:
  "resolveAccount db_none None = ([SelectAccounts], Inl NoAccountsError) \<and>
   resolveAccount db_one (Some ''  '') = ([SelectAccounts], Inr acct_a) \<and>
   resolveAccount db_two None = ([SelectAccounts], Inl AmbiguousAccountError_none)"
  using resolveAccount_empty_key [of None db_none]
    resolveAccount_empty_key [of "Some ''  ''" db_one]
    resolveAccount_empty_key [of None db_two]
  by (simp add: trim_def is_white_space_def db_none_def db_one_def db_two_def)

text \<open>
  Claim C1. When the trimmed key is not empty and some account has it as its id or as its
  email (compared byte for byte), resolution sends the exact-match query only and returns
  an account with that id or email, never an ambiguity failure; when that account is the
  only one with that id or email it is the one returned, whatever the substring search
  would have found.
\<close>

theorem resolveAccount_exact_first:
  assumes "trimmed = trim (case key of None \<Rightarrow> [] | Some k \<Rightarrow> k)" and "trimmed \<noteq> []"
    and "a \<in> set (accounts d)" and "id' a = trimmed \<or> email a = trimmed"
  shows "(\<exists>r. resolveAccount d key = ([SelectAccountExact trimmed], Inr r) \<and>
              r \<in> set (accounts d) \<and> (id' r = trimmed \<or> email r = trimmed)) \<and>
         ((\<forall>b \<in> set (accounts d). id' b = trimmed \<or> email b = trimmed \<longrightarrow> b = a) \<longrightarrow>
            resolveAccount d key = ([SelectAccountExact trimmed], Inr a))"
proof -
  let ?P = "\<lambda>r. id' r = trimmed \<or> email r = trimmed"
  from assms(3,4) have "find ?P (accounts d) \<noteq> None"
    by (auto simp: find_None_iff)
  then obtain r where r: "find ?P (accounts d) = Some r" by blast
  then have mem: "r \<in> set (accounts d)" and ex: "?P r"
    by (auto simp: find_Some_iff)
  have res: "resolveAccount d key = ([SelectAccountExact trimmed], Inr r)"
    using assms(1,2) r by (simp add: resolveAccount_def select_exact_def Let_def)
  show ?thesis using res mem ex by blast
qed

text \<open>
  The key is the email of the first account and, up to case, a substring of the email and
  of the display name of the second: the substring search alone would find two accounts.
\<close>

theorem resolveAccount_exact_first_witness:
  "resolveAccount db_two (Some '' a@x.com '') = ([SelectAccountExact ''a@x.com''], Inr acct_a) \<and>
   map email (select_like db_two ''%a@x.com%'') = [''a@x.com'', ''ba@x.com'']"
  using resolveAccount_exact_first [of "''a@x.com''" "Some '' a@x.com ''" acct_a db_two]
  by (simp add: trim_def is_white_space_def db_two_def acct_a_def acct_ba_def
      select_like_def sql_LOWER_def lower_char_def sql_COALESCE_def)

subsection \<open>The substring tier\<close>

text \<open>
  On a key without \<^verbatim>\<open>%\<close> and \<^verbatim>\<open>_\<close> the \<^verbatim>\<open>LIKE\<close> query of the source finds exactly the
  accounts of the specification's substring search.
\<close>

lemma sql_LIKE_percent:
  "sql_LIKE (CHR ''%'' # ps) s \<longleftrightarrow> (\<exists>n \<le> length s. sql_LIKE ps (drop n s))"
proof (induction s)
  case Nil
  then show ?case by simp
next
  case (Cons c cs)
  have "(\<exists>n \<le> length (c # cs). sql_LIKE ps (drop n (c # cs))) \<longleftrightarrow>
        sql_LIKE ps (c # cs) \<or> (\<exists>n \<le> length cs. sql_LIKE ps (drop n cs))"
  proof
    assume "\<exists>n \<le> length (c # cs). sql_LIKE ps (drop n (c # cs))"
    then obtain n where n: "n \<le> length (c # cs)" "sql_LIKE ps (drop n (c # cs))" by blast
    show "sql_LIKE ps (c # cs) \<or> (\<exists>n \<le> length cs. sql_LIKE ps (drop n cs))"
    proof (cases n)
      case 0
      with n show ?thesis by simp
    next
      case (Suc m)
      with n have "m \<le> length cs" "sql_LIKE ps (drop m cs)" by simp_all
      then show ?thesis by blast
    qed
  next
    assume "sql_LIKE ps (c # cs) \<or> (\<exists>n \<le> length cs. sql_LIKE ps (drop n cs))"
    then show "\<exists>n \<le> length (c # cs). sql_LIKE ps (drop n (c # cs))"
    proof
      assume "sql_LIKE ps (c # cs)"
      then have "0 \<le> length (c # cs) \<and> sql_LIKE ps (drop 0 (c # cs))" by simp
      then show ?thesis by blast
    next
      assume "\<exists>n \<le> length cs. sql_LIKE ps (drop n cs)"
      then obtain n where "n \<le> length cs" "sql_LIKE ps (drop n cs)" by blast
      then have "Suc n \<le> length (c # cs) \<and> sql_LIKE ps (drop (Suc n) (c # cs))" by simp
      then show ?thesis by blast
    qed
  qed
  with Cons show ?case by simp
qed

lemma sql_LIKE_literal:
  "wildcard_free k \<Longrightarrow>
   sql_LIKE (k @ ps) s \<longleftrightarrow>
     (length k \<le> length s \<and> map lower_char (take (length k) s) = map lower_char k \<and>
      sql_LIKE ps (drop (length k) s))"
proof (induction k arbitrary: s)
  case Nil
  then show ?case by simp
next
  case (Cons p k)
  then have wf: "wildcard_free k" and p: "p \<noteq> CHR ''%''" "p \<noteq> CHR ''_''"
    by (simp_all add: wildcard_free_def)
  show ?case
  proof (cases s)
    case Nil
    with p show ?thesis by simp
  next
    case (Cons c cs)
    with p Cons.IH [OF wf, of cs] show ?thesis by auto
  qed
qed

lemma sql_LIKE_percent_only: "sql_LIKE ''%'' t"
  by (induction t) simp_all

lemma sql_LIKE_contains:
  assumes "wildcard_free k"
  shows "sql_LIKE (''%'' @ k @ ''%'') s \<longleftrightarrow> sublist (map lower_char k) (map lower_char s)"
proof -
  have "sql_LIKE (''%'' @ k @ ''%'') s \<longleftrightarrow> (\<exists>n \<le> length s. sql_LIKE (k @ ''%'') (drop n s))"
    by (simp add: sql_LIKE_percent)
  also have "\<dots> \<longleftrightarrow>
        (\<exists>n \<le> length s. length k \<le> length (drop n s) \<and>
           map lower_char (take (length k) (drop n s)) = map lower_char k)"
    unfolding sql_LIKE_literal [OF assms] by (simp only: sql_LIKE_percent_only simp_thms)
  also have "\<dots> \<longleftrightarrow> sublist (map lower_char k) (map lower_char s)"
  proof
    assume "\<exists>n \<le> length s. length k \<le> length (drop n s) \<and>
              map lower_char (take (length k) (drop n s)) = map lower_char k"
    then obtain n where n: "n \<le> length s" "length k \<le> length (drop n s)"
      "map lower_char (take (length k) (drop n s)) = map lower_char k" by blast
    have "s = take n s @ take (length k) (drop n s) @ drop (length k) (drop n s)"
      by (simp only: append_take_drop_id)
    then have "map lower_char s =
        map lower_char (take n s) @ map lower_char k @ map lower_char (drop (length k) (drop n s))"
      using n(3) by (metis map_append)
    then show "sublist (map lower_char k) (map lower_char s)"
      unfolding sublist_def by blast
  next
    assume "sublist (map lower_char k) (map lower_char s)"
    then obtain us vs where e: "map lower_char s = us @ map lower_char k @ vs"
      unfolding sublist_def by blast
    let ?n = "length us"
    have len: "length s = length us + length k + length vs"
      using arg_cong [OF e, of length] by simp
    have d: "map lower_char (drop ?n s) = map lower_char k @ vs"
      using arg_cong [OF e, of "drop ?n"] by (simp add: drop_map)
    have "map lower_char (take (length k) (drop ?n s)) = map lower_char k"
      using arg_cong [OF d, of "take (length k)"] by (simp add: take_map)
    with len show "\<exists>n \<le> length s. length k \<le> length (drop n s) \<and>
              map lower_char (take (length k) (drop n s)) = map lower_char k"
      by (intro exI [of _ ?n]) simp
  qed
  finally show ?thesis .
qed

lemma lower_char_idem: "lower_char (lower_char c) = lower_char c"
  by (simp add: lower_char_def)

lemma of_char_lower_char:
  "(of_char (lower_char c) :: nat) =
     (if (65::nat) \<le> of_char c \<and> of_char c \<le> (90::nat) then of_char c + 32 else of_char c)"
  by (simp add: lower_char_def)

lemma lower_char_wildcard:
  "lower_char c = CHR ''%'' \<longleftrightarrow> c = CHR ''%''" "lower_char c = CHR ''_'' \<longleftrightarrow> c = CHR ''_''"
proof -
  have inj: "x = y \<longleftrightarrow> (of_char x :: nat) = of_char y" for x y :: char
    by simp
  show "lower_char c = CHR ''%'' \<longleftrightarrow> c = CHR ''%''"
    unfolding inj [of "lower_char c"] inj [of c] of_char_lower_char by (simp split: if_splits)
  show "lower_char c = CHR ''_'' \<longleftrightarrow> c = CHR ''_''"
    unfolding inj [of "lower_char c"] inj [of c] of_char_lower_char by (simp split: if_splits)
qed

lemma select_like_substring:
  assumes "wildcard_free key"
  shows "select_like d (''%'' @ toLowerCase key @ ''%'') = spec_fuzzy_matches d key"
proof -
  have wf: "wildcard_free (toLowerCase key)"
    using assms by (auto simp: wildcard_free_def toLowerCase_def lower_char_wildcard)
  have idem: "map lower_char (map lower_char xs) = map lower_char xs" for xs
    by (simp add: lower_char_idem comp_def)
  have m: "sql_LIKE (''%'' @ toLowerCase key @ ''%'') (sql_LOWER x) \<longleftrightarrow>
           sublist (toLowerCase key) (toLowerCase x)" for x
    unfolding sql_LIKE_contains [OF wf] by (simp add: sql_LOWER_def toLowerCase_def lower_char_idem comp_def)
  show ?thesis
    unfolding select_like_def spec_fuzzy_matches_def m ..
qed


text \<open>
  So the substring tier does what the specification says on every key without wildcard
  characters: after the two queries, the only match is returned, several matches fail
  with the ambiguity error that carries their emails, no match fails with the not-found
  error.
\<close>

lemma resolveAccount_substring_tier:
  assumes "trimmed = trim (case key of None \<Rightarrow> [] | Some k \<Rightarrow> k)" and "trimmed \<noteq> []"
    and "\<forall>a \<in> set (accounts d). id' a \<noteq> trimmed \<and> email a \<noteq> trimmed"
    and "wildcard_free trimmed"
  shows "resolveAccount d key =
           ([SelectAccountExact trimmed, SelectAccountsLike (''%'' @ toLowerCase trimmed @ ''%'')],
            case spec_fuzzy_matches d trimmed of
              [] \<Rightarrow> Inl (AccountNotFoundError trimmed)
            | [a] \<Rightarrow> Inr a
            | ms \<Rightarrow> Inl (AmbiguousAccountError trimmed (join (map email ms) '', '')))"
proof -
  have none: "select_exact d trimmed = None"
    using assms(3) by (auto simp: select_exact_def find_None_iff)
  have like: "select_like d (''%'' @ toLowerCase trimmed @ ''%'') = spec_fuzzy_matches d trimmed"
    using assms(4) by (rule select_like_substring)
  show ?thesis
  proof (cases "spec_fuzzy_matches d trimmed")
    case Nil
    with assms(1,2) none like show ?thesis
      by (simp add: resolveAccount_def Let_def del: append_Cons)
  next
    case (Cons a ms)
    with assms(1,2) none like show ?thesis
      by (cases ms) (simp_all add: resolveAccount_def Let_def del: append_Cons)
  qed
qed

text \<open>
  Claim C2, at a key with a wildcard character. The stored emails are \<^verbatim>\<open>acb@x.com\<close> and
  \<^verbatim>\<open>a_b@x.com\<close>, the key is \<^verbatim>\<open>a_b\<close>. It is a substring of the second email only, so the
  claim has the second account returned; the source sends the key as a \<^verbatim>\<open>LIKE\<close> pattern,
  in which \<^verbatim>\<open>_\<close> stands for any character, finds both accounts and fails with the
  ambiguity error.
\<close>

theorem resolveAccount_like_wildcard:
  "resolveAccount db_wild (Some ''a_b'') =
     ([SelectAccountExact ''a_b'', SelectAccountsLike ''%a_b%''],
      Inl (AmbiguousAccountError ''a_b'' ''a_b@x.com, acb@x.com'')) \<and>
   spec_fuzzy_matches db_wild ''a_b'' = [acct_underscore]"
  by (simp add: resolveAccount_def select_exact_def select_like_def spec_fuzzy_matches_def
      db_wild_def acct_underscore_def acct_other_def trim_def is_white_space_def
      toLowerCase_def sql_LOWER_def lower_char_def sql_COALESCE_def AmbiguousAccountError_def
      sublist_Cons_right)


section \<open>Encryption: properties\<close>

subsection \<open>Counter mode is an involution\<close>

lemma length_bytes_of_block: "length (bytes_of_block w) = 16"
  by (simp add: bytes_of_block_def)

lemma length_ctr_stream: "length (ctr_stream E cb n) = 16 * n"
  by (induction n arbitrary: cb) (simp_all add: length_bytes_of_block)

lemma length_GCTR: "length (GCTR E icb xs) = length xs"
  by (simp add: GCTR_def xor_bytes_def length_ctr_stream)

lemma xor_bytes_twice: "length xs \<le> length ks \<Longrightarrow> xor_bytes (xor_bytes xs ks) ks = xs"
proof (induction xs arbitrary: ks)
  case Nil
  then show ?case by (simp add: xor_bytes_def)
next
  case (Cons x xs)
  then obtain k ks' where ks: "ks = k # ks'" by (cases ks) auto
  with Cons.prems have "length xs \<le> length ks'" by simp
  from Cons.IH [OF this] have "xor_bytes (xor_bytes xs ks') ks' = xs" .
  moreover have "(x XOR k) XOR k = x"
    by (simp add: xor.assoc)
  ultimately show ?case
    unfolding ks by (simp add: xor_bytes_def)
qed

lemma GCTR_involution: "GCTR E icb (GCTR E icb xs) = xs"
proof -
  let ?ks = "ctr_stream E icb ((length xs + 15) div 16)"
  have "length xs \<le> length ?ks" by (simp add: length_ctr_stream)
  then have "xor_bytes (xor_bytes xs ?ks) ?ks = xs" by (rule xor_bytes_twice)
  moreover have "length (xor_bytes xs ?ks) = length xs"
    using length_GCTR [of E icb xs] by (simp add: GCTR_def)
  ultimately show ?thesis by (simp add: GCTR_def)
qed

lemma gcm_crypt_involution: "gcm_crypt key iv (gcm_crypt key iv xs) = xs"
  by (simp add: gcm_crypt_def GCTR_involution)

lemma length_gcm_crypt: "length (gcm_crypt key iv xs) = length xs"
  by (simp add: gcm_crypt_def length_GCTR)

lemma length_gcm_tag: "length (gcm_tag key iv aad ct) = 16"
  by (simp add: gcm_tag_def length_bytes_of_block)

lemma length_randomBytes: "length (randomBytes rng n) = n"
  by (simp add: randomBytes_def)

lemma encryptAesGcm_eq:
  assumes "length key = 32"
  shows "encryptAesGcm rng key p a =
           Inr (gcm_crypt key (randomBytes rng 12) p, randomBytes rng 12,
                gcm_tag key (randomBytes rng 12) (setAAD a) (gcm_crypt key (randomBytes rng 12) p))"
proof -
  have "randomBytes rng 12 \<noteq> []"
    using length_randomBytes [of rng 12] by auto
  with assms show ?thesis by (simp add: encryptAesGcm_def Let_def)
qed

lemma decryptAesGcm_genuine:
  assumes "length key = 32" and "iv \<noteq> []"
  shows "decryptAesGcm key iv (gcm_tag key iv (setAAD a) (gcm_crypt key iv p)) (gcm_crypt key iv p) a = Inr p"
  using assms
  by (simp add: decryptAesGcm_def length_gcm_tag valid_gcm_tag_length_def gcm_crypt_involution)

subsection \<open>Evaluation on the example\<close>

text \<open>
  The recursions on a counter, unrolled on numerals.
\<close>

lemma KeyExpansion_loop_numeral:
  "KeyExpansion_loop (numeral k) i rc w =
     KeyExpansion_loop (pred_numeral k) (i + 1) (if i mod 8 = 0 then xtime rc else rc)
       (w @ [xor_bytes (w ! (i - 8)) (KeyExpansion_temp i rc (w ! (i - 1)))])"
proof -
  have "numeral k = Suc (pred_numeral k)" by (rule numeral_eq_Suc)
  then show ?thesis by (simp only: KeyExpansion_loop.simps)
qed

lemma gf_mult_loop_numeral:
  "gf_mult_loop (numeral k) x z v =
     gf_mult_loop (pred_numeral k) x (if bit x (pred_numeral k) then z XOR v else z)
       (if bit v 0 then drop_bit 1 v XOR push_bit 120 0xE1 else drop_bit 1 v)"
proof -
  have "numeral k = Suc (pred_numeral k)" by (rule numeral_eq_Suc)
  then show ?thesis by (simp only: gf_mult_loop.simps)
qed

lemma ctr_stream_numeral:
  "ctr_stream E cb (numeral k) = bytes_of_block (E cb) @ ctr_stream E (inc32 cb) (pred_numeral k)"
proof -
  have "numeral k = Suc (pred_numeral k)" by (rule numeral_eq_Suc)
  then show ?thesis by (simp only: ctr_stream.simps)
qed

lemma KeyExpansion_K0: "KeyExpansion K0 = W0"
  by (simp add: K0_def W0_def KeyExpansion_def KeyExpansion_loop_numeral KeyExpansion_temp_def
      xor_bytes_def SubBytes_def SubByte_def sbox_def RotWord_def xtime_def)

lemmas Cipher_eval =
  Cipher_def aes_round_def round_key_def MixColumns_def MixColumn_def ShiftRows_def
  xor_bytes_def SubBytes_def SubByte_def sbox_def xtime_def

lemma aes256_K0_0: "aes256 K0 0 = 0xdc95c078a2408989ad48a21492842087"
  unfolding aes256_def KeyExpansion_K0
  by (simp add: W0_def bytes_of_block_def block_of_bytes_def Cipher_eval)

lemma aes256_K0_1: "aes256 K0 1 = 0x530f8afbc74536b9a963b4f1c4cb738b"
  unfolding aes256_def KeyExpansion_K0
  by (simp add: W0_def bytes_of_block_def block_of_bytes_def Cipher_eval)

lemma aes256_K0_2: "aes256 K0 2 = 0xcea7403d4d606b6e074ec5d3baf39d18"
  unfolding aes256_def KeyExpansion_K0
  by (simp add: W0_def bytes_of_block_def block_of_bytes_def Cipher_eval)

lemma aes256_K0_3: "aes256 K0 3 = 0x726003ca37a62a74d1a2f58e7506358e"
  unfolding aes256_def KeyExpansion_K0
  by (simp add: W0_def bytes_of_block_def block_of_bytes_def Cipher_eval)

lemma J0_IV0: "J0 h IV0 = 1"
  by (simp add: J0_def IV0_def block_of_bytes_def)

lemma inc32_1: "inc32 1 = 2" and inc32_2: "inc32 2 = 3"
  by (simp_all add: inc32_def mask_eq_exp_minus_1)

lemma AAD0_bytes:
  "AAD0 = [0x63, 0x72, 0x65, 0x64, 0x65, 0x6e, 0x74, 0x69, 0x61, 0x6c, 0x73, 0x2e, 0x72, 0x65, 0x66, 0x72,
     0x65, 0x73, 0x68, 0x5f, 0x74, 0x6f, 0x6b, 0x65, 0x6e, 0x3a, 0x41, 0x3a, 0x76, 0x31]"
  by (simp add: AAD0_def credentials_aad_def Buffer_from_def)

lemma gcm_crypt_P0: "gcm_crypt K0 IV0 P0 = CT0"
  unfolding gcm_crypt_def J0_IV0 inc32_1
  by (simp add: GCTR_def P0_def CT0_def ctr_stream_numeral inc32_2 aes256_K0_2 aes256_K0_3
      bytes_of_block_def xor_bytes_def)


lemma gcm_tag_CT0: "gcm_tag K0 IV0 AAD0 CT0 = TAG0"
  unfolding gcm_tag_def J0_IV0 aes256_K0_0 aes256_K0_1 AAD0_bytes
  apply (simp add: CT0_def TAG0_def GHASH_def block_of_bytes_def)
  apply (simp add: gf_mult_def gf_mult_loop_numeral bytes_of_block_def)
  done




lemma randomBytes_rng_zero: "randomBytes rng_zero 12 = IV0"
  by (simp add: randomBytes_def rng_zero_def IV0_def upt_rec [of _ "numeral n" for n])

lemma length_K0: "length K0 = 32"
  by (simp add: K0_def)

lemma encryptAesGcm_example: "encryptAesGcm rng_zero K0 P0 (Some AAD0) = Inr (CT0, IV0, TAG0)"
  by (simp add: encryptAesGcm_eq [OF length_K0] randomBytes_rng_zero gcm_crypt_P0 gcm_tag_CT0
      setAAD_def)

text \<open>
  The model reproduces the published known answers: example C.3 of FIPS 197 for the block
  cipher; test cases 13 and 14 of the GCM specification for the hash key
  (\<open>aes256_K0_0\<close>), the encrypted pre-counter block (\<open>aes256_K0_1\<close>), the ciphertext and the
  tag.
\<close>

lemma KeyExpansion_K_fips: "KeyExpansion K_fips = W_fips"
  by (simp add: K_fips_def W_fips_def KeyExpansion_def KeyExpansion_loop_numeral
      KeyExpansion_temp_def xor_bytes_def SubBytes_def SubByte_def sbox_def RotWord_def xtime_def)

lemma aes256_known_answer:
  "aes256 K_fips 0x00112233445566778899aabbccddeeff = 0x8ea2b7ca516745bfeafc49904b496089"
  unfolding aes256_def KeyExpansion_K_fips
  by (simp add: W_fips_def bytes_of_block_def block_of_bytes_def Cipher_eval)

lemma gcm_known_answer:
  "gcm_crypt K0 IV0 P_zero = CT_case14" "gcm_tag K0 IV0 [] CT_case14 = TAG_case14"
proof -
  show "gcm_crypt K0 IV0 P_zero = CT_case14"
    unfolding gcm_crypt_def J0_IV0 inc32_1
    by (simp add: GCTR_def P_zero_def CT_case14_def ctr_stream_numeral aes256_K0_2
        bytes_of_block_def xor_bytes_def)
  show "gcm_tag K0 IV0 [] CT_case14 = TAG_case14"
    unfolding gcm_tag_def J0_IV0 aes256_K0_0 aes256_K0_1
    apply (simp add: CT_case14_def TAG_case14_def GHASH_def block_of_bytes_def)
    apply (simp add: gf_mult_def gf_mult_loop_numeral bytes_of_block_def)
    done
qed

subsection \<open>Round trip\<close>

text \<open>
  Claim C4. For a key of 32 bytes, whatever the plaintext, the associated data and the
  bytes of the random generator, encryption succeeds and decryption of its ciphertext,
  IV and tag under the same key and associated data returns the plaintext.
\<close>

theorem encrypt_decrypt_roundtrip:
  assumes "length key = 32"
  shows "\<exists>ct iv tag. encryptAesGcm rng key p a = Inr (ct, iv, tag) \<and>
                      decryptAesGcm key iv tag ct a = Inr p"
proof -
  have "randomBytes rng 12 \<noteq> []"
    using length_randomBytes [of rng 12] by auto
  from decryptAesGcm_genuine [OF assms this] encryptAesGcm_eq [OF assms]
  show ?thesis by blast
qed

theorem encrypt_decrypt_roundtrip_witness:
  "length K0 = 32 \<and> encryptAesGcm rng_zero K0 P0 (Some AAD0) = Inr (CT0, IV0, TAG0) \<and>
   decryptAesGcm K0 IV0 TAG0 CT0 (Some AAD0) = Inr P0"
  using encrypt_decrypt_roundtrip [of K0 rng_zero P0 "Some AAD0"]
  by (simp add: length_K0 encryptAesGcm_example)

subsection \<open>Tampering\<close>




section \<open>Credentials: properties\<close>

text \<open>
  Claim C6. Reading the secret of an account fails with the credentials-not-found error
  when the account has no credential row. When the row holds the encrypted fields and no
  plaintext, it fails with the database-locked error if no key was supplied; with a key
  it calls the decryption with the associated data \<^verbatim>\<open>credentials.refresh_token:<accountId>:v1\<close>
  and passes its failure on, which is the authentication error whenever the stored tag is
  not the tag of the stored IV and ciphertext under that key and associated data. When
  the row holds a non-empty plaintext, the secret is that plaintext, whatever the key and
  without a call of the decryption.
\<close>

theorem getCalendarClient_secret:
  fixes cfg :: CalendarConfig and accountId :: string
  defines "aad \<equiv> Buffer_from (''credentials.refresh_token:'' @ accountId @ '':v1'')"
  shows
   "(select_credentials (db cfg) accountId = None \<longrightarrow>
       getCalendarClient cfg env accountId =
         ([SelectCredentials accountId], Inl CredentialsNotFoundError)) \<and>
    (\<forall>ct iv tag.
       select_credentials (db cfg) accountId =
         Some \<lparr>refresh_token = None, refresh_token_ct = Some ct, refresh_token_iv = Some iv,
               refresh_token_tag = Some tag\<rparr> \<longrightarrow>
       (dek cfg = None \<longrightarrow>
          getCalendarClient cfg env accountId =
            ([SelectCredentials accountId], Inl DatabaseLockedError)) \<and>
       (\<forall>k. dek cfg = Some k \<longrightarrow>
          getCalendarClient cfg env accountId =
            ([SelectCredentials accountId, DecryptCall aad],
             case decryptAesGcm k iv tag ct (Some aad) of
               Inl e \<Rightarrow> Inl e
             | Inr pt \<Rightarrow>
                 Inr \<lparr>clientId = or_empty (GOOGLE_CLIENT_ID env),
                      clientSecret = or_empty (GOOGLE_CLIENT_SECRET env),
                      credentials_refresh_token = toString_utf8 pt\<rparr>) \<and>
          (length k = 32 \<and> iv \<noteq> [] \<and> length tag = 16 \<and> tag \<noteq> gcm_tag k iv aad ct \<longrightarrow>
             snd (getCalendarClient cfg env accountId) = Inl AuthenticationError))) \<and>
    (\<forall>cred secret.
       select_credentials (db cfg) accountId = Some cred \<and> refresh_token cred = Some secret \<and>
       secret \<noteq> [] \<longrightarrow>
       (\<forall>k. getCalendarClient (cfg\<lparr>dek := k\<rparr>) env accountId =
              ([SelectCredentials accountId],
               Inr \<lparr>clientId = or_empty (GOOGLE_CLIENT_ID env),
                    clientSecret = or_empty (GOOGLE_CLIENT_SECRET env),
                    credentials_refresh_token = secret\<rparr>)))"
proof -
  have fold: "Buffer_from (''credentials.refresh_token:'' @ accountId @ '':v1'') =
              credentials_aad accountId"
    by (simp only: credentials_aad_def)
  show ?thesis
    unfolding aad_def fold
    by (auto simp: getCalendarClient_def read_refresh_token_def
        decryptAesGcm_def valid_gcm_tag_length_def AuthenticationError_def setAAD_def
        length_gcm_tag split: sum.splits)
qed

theorem getCalendarClient_secret_witness:
  "getCalendarClient \<lparr>db = db_cred, dek = None, readOnly = None\<rparr> env0 ''Z'' =
     ([SelectCredentials ''Z''], Inl CredentialsNotFoundError) \<and>
   getCalendarClient \<lparr>db = db_cred, dek = None, readOnly = None\<rparr> env0 ''A'' =
     ([SelectCredentials ''A''], Inl DatabaseLockedError) \<and>
   getCalendarClient \<lparr>db = db_cred, dek = Some K0, readOnly = None\<rparr> env0 ''A'' =
     ([SelectCredentials ''A'', DecryptCall AAD0],
      Inr \<lparr>clientId = ''client-id'', clientSecret = [],
           credentials_refresh_token = ''0123456789abcdef0123456789abcdef''\<rparr>) \<and>
   snd (getCalendarClient \<lparr>db = db_cred_tampered, dek = Some K0, readOnly = None\<rparr> env0 ''A'') =
     Inl AuthenticationError \<and>
   getCalendarClient \<lparr>db = db_cred, dek = None, readOnly = None\<rparr> env0 ''P'' =
     ([SelectCredentials ''P''],
      Inr \<lparr>clientId = ''client-id'', clientSecret = [], credentials_refresh_token = ''1//token''\<rparr>)"
proof -
  have dec: "decryptAesGcm K0 IV0 TAG0 CT0 (Some AAD0) = Inr P0"
    using decryptAesGcm_genuine [of K0 IV0 "Some AAD0" P0]
    by (simp add: length_K0 gcm_crypt_P0 gcm_tag_CT0 setAAD_def) (simp add: IV0_def)
  have str: "toString_utf8 P0 = ''0123456789abcdef0123456789abcdef''"
    by (simp add: toString_utf8_def P0_def char_of_eq_iff)
  have aad: "Buffer_from (''credentials.refresh_token:'' @ ''A'' @ '':v1'') = AAD0"
    by (simp add: AAD0_def credentials_aad_def)
  have bad: "length K0 = 32 \<and> IV0 \<noteq> [] \<and> length TAG0_altered = 16 \<and>
             TAG0_altered \<noteq> gcm_tag K0 IV0 AAD0 CT0"
    by (simp add: length_K0 gcm_tag_CT0) (simp add: IV0_def TAG0_altered_def TAG0_def)
  have sel_Z: "select_credentials db_cred ''Z'' = None"
    and sel_A: "select_credentials db_cred ''A'' =
      Some \<lparr>refresh_token = None, refresh_token_ct = Some CT0, refresh_token_iv = Some IV0,
            refresh_token_tag = Some TAG0\<rparr>"
    and sel_T: "select_credentials db_cred_tampered ''A'' =
      Some \<lparr>refresh_token = None, refresh_token_ct = Some CT0, refresh_token_iv = Some IV0,
            refresh_token_tag = Some TAG0_altered\<rparr>"
    and sel_P: "select_credentials db_cred ''P'' = Some row_plain"
    by (simp_all add: select_credentials_def db_cred_def db_cred_tampered_def row_encrypted_def
        row_tampered_def)
  have env: "or_empty (GOOGLE_CLIENT_ID env0) = ''client-id''"
    "or_empty (GOOGLE_CLIENT_SECRET env0) = []"
    by (simp_all add: env0_def or_empty_def)
  have 1: "getCalendarClient \<lparr>db = db_cred, dek = None, readOnly = None\<rparr> env0 ''Z'' =
      ([SelectCredentials ''Z''], Inl CredentialsNotFoundError)"
    using getCalendarClient_secret [of "\<lparr>db = db_cred, dek = None, readOnly = None\<rparr>" "''Z''" env0]
      sel_Z by simp
  have 2: "getCalendarClient \<lparr>db = db_cred, dek = None, readOnly = None\<rparr> env0 ''A'' =
      ([SelectCredentials ''A''], Inl DatabaseLockedError)"
    using getCalendarClient_secret [of "\<lparr>db = db_cred, dek = None, readOnly = None\<rparr>" "''A''" env0]
      sel_A by simp
  have 3: "getCalendarClient \<lparr>db = db_cred, dek = Some K0, readOnly = None\<rparr> env0 ''A'' =
      ([SelectCredentials ''A'', DecryptCall AAD0],
       Inr \<lparr>clientId = ''client-id'', clientSecret = [],
            credentials_refresh_token = ''0123456789abcdef0123456789abcdef''\<rparr>)"
    using getCalendarClient_secret [of "\<lparr>db = db_cred, dek = Some K0, readOnly = None\<rparr>" "''A''" env0,
        unfolded aad] sel_A
    by (simp add: dec str env)
  have 4: "snd (getCalendarClient \<lparr>db = db_cred_tampered, dek = Some K0, readOnly = None\<rparr> env0 ''A'') =
      Inl AuthenticationError"
    using getCalendarClient_secret
        [of "\<lparr>db = db_cred_tampered, dek = Some K0, readOnly = None\<rparr>" "''A''" env0, unfolded aad]
      sel_T bad
    by auto
  have 5: "getCalendarClient \<lparr>db = db_cred, dek = None, readOnly = None\<rparr> env0 ''P'' =
      ([SelectCredentials ''P''],
       Inr \<lparr>clientId = ''client-id'', clientSecret = [], credentials_refresh_token = ''1//token''\<rparr>)"
    using getCalendarClient_secret [of "\<lparr>db = db_cred, dek = None, readOnly = None\<rparr>" "''P''" env0]
      sel_P
    by (simp add: row_plain_def env)
  from 1 2 3 4 5 show ?thesis by blast
qed

text \<open>
  Claim C10. A row whose plaintext field holds a non-empty string yields that string,
  whatever the key and whatever the encrypted fields, with no call of the decryption. A
  plaintext field that holds the empty string counts as absent: without a key the read
  fails with the database-locked error, and in general it does what it does on the row
  with the plaintext field set to \<^verbatim>\<open>NULL\<close>.
\<close>

theorem getCalendarClient_plaintext_first:
  assumes "select_credentials (db cfg) accountId = Some cred"
  shows
   "(\<forall>secret. refresh_token cred = Some secret \<and> secret \<noteq> [] \<longrightarrow>
       (\<forall>k. getCalendarClient (cfg\<lparr>dek := k\<rparr>) env accountId =
              ([SelectCredentials accountId],
               Inr \<lparr>clientId = or_empty (GOOGLE_CLIENT_ID env),
                    clientSecret = or_empty (GOOGLE_CLIENT_SECRET env),
                    credentials_refresh_token = secret\<rparr>))) \<and>
    (refresh_token cred = Some [] \<longrightarrow>
       (dek cfg = None \<longrightarrow>
          getCalendarClient cfg env accountId =
            ([SelectCredentials accountId], Inl DatabaseLockedError)) \<and>
       (\<forall>cfg'. select_credentials (db cfg') accountId = Some (cred\<lparr>refresh_token := None\<rparr>) \<and>
              dek cfg' = dek cfg \<longrightarrow>
          getCalendarClient cfg env accountId = getCalendarClient cfg' env accountId))"
  using assms
  by (auto simp: getCalendarClient_def read_refresh_token_def split: option.splits)

theorem getCalendarClient_plaintext_first_witness:
  "getCalendarClient \<lparr>db = db_cred_both, dek = None, readOnly = None\<rparr> env0 ''A'' =
     ([SelectCredentials ''A''],
      Inr \<lparr>clientId = ''client-id'', clientSecret = [], credentials_refresh_token = ''1//token''\<rparr>) \<and>
   getCalendarClient \<lparr>db = db_cred_both, dek = None, readOnly = None\<rparr> env0 ''E'' =
     ([SelectCredentials ''E''], Inl DatabaseLockedError)"
  using getCalendarClient_plaintext_first
      [of "\<lparr>db = db_cred_both, dek = None, readOnly = None\<rparr>" "''A''" row_both env0]
    getCalendarClient_plaintext_first
      [of "\<lparr>db = db_cred_both, dek = None, readOnly = None\<rparr>" "''E''" row_empty_plaintext env0]
  by (simp add: select_credentials_def db_cred_both_def row_both_def row_empty_plaintext_def
      env0_def or_empty_def)

section \<open>Read-only mode\<close>

lemma read_refresh_token_readOnly:
  "read_refresh_token (cfg\<lparr>readOnly := x\<rparr>) accountId = read_refresh_token cfg accountId"
  by (simp add: read_refresh_token_def split: option.splits)

lemma with_client_readOnly:
  "with_client (cfg\<lparr>readOnly := x\<rparr>) env api accountId req = with_client cfg env api accountId req"
  by (simp add: with_client_def getCalendarClient_def read_refresh_token_readOnly)

text \<open>
  Claim C9. With \<^verbatim>\<open>readOnly\<close> set, \<^verbatim>\<open>createEvent\<close>, \<^verbatim>\<open>updateEvent\<close> and \<^verbatim>\<open>deleteEvent\<close> fail
  with the error \<^verbatim>\<open>Server is in read-only mode\<close> and have no effect: no credential is
  read and no request is made. \<^verbatim>\<open>listAccounts\<close>, \<^verbatim>\<open>resolveAccount\<close>, \<^verbatim>\<open>listEvents\<close> and
  \<^verbatim>\<open>getEvent\<close> do what they do with \<^verbatim>\<open>readOnly\<close> unset.
\<close>

theorem readOnly_blocks_writes:
  assumes "readOnly cfg = Some True"
  shows "createEvent cfg env api accountId calendarId event = ([], Inl ReadOnlyError) \<and>
         updateEvent cfg env api accountId calendarId eventId patch = ([], Inl ReadOnlyError) \<and>
         deleteEvent cfg env api accountId calendarId eventId = ([], Inl ReadOnlyError) \<and>
         listAccounts (db cfg) = listAccounts (db (cfg\<lparr>readOnly := Some False\<rparr>)) \<and>
         resolveAccount (db cfg) key = resolveAccount (db (cfg\<lparr>readOnly := Some False\<rparr>)) key \<and>
         listEvents cfg env api accountId calendarId q timeMin timeMax maxResults =
           listEvents (cfg\<lparr>readOnly := Some False\<rparr>) env api accountId calendarId q timeMin timeMax
             maxResults \<and>
         getEvent cfg env api accountId calendarId eventId =
           getEvent (cfg\<lparr>readOnly := Some False\<rparr>) env api accountId calendarId eventId"
  using assms
  by (simp add: createEvent_def updateEvent_def deleteEvent_def listEvents_def getEvent_def
      with_client_readOnly)

theorem readOnly_blocks_writes_witness:
  "createEvent cfg_ro env0 api0 ''1'' ''primary'' ''{}'' = ([], Inl ReadOnlyError) \<and>
   updateEvent cfg_ro env0 api0 ''1'' ''primary'' ''ev'' ''{}'' = ([], Inl ReadOnlyError) \<and>
   deleteEvent cfg_ro env0 api0 ''1'' ''primary'' ''ev'' = ([], Inl ReadOnlyError) \<and>
   getEvent cfg_ro env0 api0 ''1'' ''primary'' ''ev'' =
     getEvent (cfg_ro\<lparr>readOnly := Some False\<rparr>) env0 api0 ''1'' ''primary'' ''ev'' \<and>
   getEvent cfg_ro env0 api0 ''1'' ''primary'' ''ev'' =
     ([SelectCredentials ''1'',
       ApiCall \<lparr>clientId = ''client-id'', clientSecret = [], credentials_refresh_token = ''1//token''\<rparr>
         (Events_get ''primary'' ''ev'')],
      Inr ''{}'')"
  using readOnly_blocks_writes [of cfg_ro env0 api0 "''1''" "''primary''" "''{}''" "''ev''" "''{}''"
      None None None None None]
  by (simp add: cfg_ro_def buildTools_cfg_def getEvent_def with_client_def getCalendarClient_def
      read_refresh_token_def select_credentials_def row_plain_def env0_def api0_def or_empty_def
      map_io_def)

section \<open>Key derivation\<close>

text \<open>
  The estimate itself is always below the first ceiling; what can exceed a ceiling is the
  memory that the key derivation really needs, which is for \<^verbatim>\<open>crypto.scrypt\<close> to decide.
\<close>

lemma estimate_below_first_ceiling:
  "128 * param_N params * param_r params < max 67108864 (2 * (128 * param_N params * param_r params))"
  by (simp add: max_def)

text \<open>
  Claim C7. With the estimate \<open>128 * N * r\<close>, the first call of the key derivation has the
  ceiling \<open>max (64 MiB) (2 * estimate)\<close>. If it succeeds, or fails with an error that is
  not a memory-limit error, that is the outcome, after that one call. If it fails with a
  memory-limit error there is exactly one more call, with ceiling
  \<open>max (256 MiB) (8 * estimate)\<close>, whose key or error is the outcome; so a derivation
  that is refused under the first ceiling and accepted under the second succeeds. A
  memory-limit error is one that the \<^verbatim>\<open>catch\<close> block recognises as such, by its message
  or its code.
\<close>

theorem deriveKek_retry:
  fixes params :: KdfParams
  defines "estimated \<equiv> 128 * param_N params * param_r params"
  defines "first \<equiv> max 67108864 (2 * estimated)"
  defines "second \<equiv> max 268435456 (8 * estimated)"
  shows "(\<forall>k. tryOnce scrypt password salt params first = Inr k \<longrightarrow>
            deriveKek scrypt password salt params = ([ScryptCall first], Inr k)) \<and>
         (\<forall>message code. tryOnce scrypt password salt params first = Inl (message, code) \<and>
            \<not> memory_limit_exceeded message code \<longrightarrow>
            deriveKek scrypt password salt params = ([ScryptCall first], Inl (KdfError message code))) \<and>
         (\<forall>message code. tryOnce scrypt password salt params first = Inl (message, code) \<and>
            memory_limit_exceeded message code \<longrightarrow>
            deriveKek scrypt password salt params =
              ([ScryptCall first, ScryptCall second],
               case tryOnce scrypt password salt params second of
                 Inr k \<Rightarrow> Inr k
               | Inl (message', code') \<Rightarrow> Inl (KdfError message' code')))"
  unfolding estimated_def first_def second_def
  by (auto simp: deriveKek_def Let_def mult.commute)

lemma memory_limit_message: "memory_limit_exceeded ''Invalid scrypt params: memory limit exceeded'' []"
  by (simp add: memory_limit_exceeded_def regex_test_i_def toLowerCase_def lower_char_def
      sublist_Cons_right)

lemma other_message: "\<not> memory_limit_exceeded ''Invalid scrypt parameter'' []"
  by (simp add: memory_limit_exceeded_def regex_test_i_def toLowerCase_def lower_char_def
      sublist_Cons_right)

theorem deriveKek_retry_witness:
  "deriveKek (scrypt_limited 3000000000) ''pw'' [1, 2] params0 =
     ([ScryptCall 2147483648, ScryptCall 8589934592], Inr [0, 0]) \<and>
   deriveKek (scrypt_limited 1000) ''pw'' [1, 2] params0 = ([ScryptCall 2147483648], Inr [0, 0]) \<and>
   deriveKek (scrypt_limited 9000000000) ''pw'' [1, 2] params0 =
     ([ScryptCall 2147483648, ScryptCall 8589934592],
      Inl (KdfError ''Invalid scrypt params: memory limit exceeded'' [])) \<and>
   deriveKek scrypt_refusing ''pw'' [1, 2] params0 =
     ([ScryptCall 2147483648], Inl (KdfError ''Invalid scrypt parameter'' []))"
  using deriveKek_retry [of "scrypt_limited 3000000000" "''pw''" "[1, 2]" params0]
    deriveKek_retry [of "scrypt_limited 1000" "''pw''" "[1, 2]" params0]
    deriveKek_retry [of "scrypt_limited 9000000000" "''pw''" "[1, 2]" params0]
    deriveKek_retry [of scrypt_refusing "''pw''" "[1, 2]" params0]
    memory_limit_message other_message
  by (simp add: tryOnce_def scrypt_limited_def scrypt_refusing_def params0_def numeral_2_eq_2)

section \<open>Transactions\<close>

text \<open>
  Inside an open transaction the body works on the transaction's state and leaves the
  persisted state alone.
\<close>

lemma run_body_open:
  assumes "txn c = Some w"
  shows "run_body c fn out =
           (case apply_all fn w of
              Inr w' \<Rightarrow> (c\<lparr>txn := Some w'\<rparr>, Inr out)
            | Inl e \<Rightarrow> (c\<lparr>txn := txn (fst (run_body c fn out))\<rparr>, Inl e)) \<and>
         txn (fst (run_body c fn out)) \<noteq> None"
  using assms
proof (induction fn arbitrary: c w)
  case Nil
  then show ?case by simp
next
  case (Cons m ms)
  show ?case
  proof (cases "m w")
    case (Inl e)
    with Cons.prems show ?thesis by (simp add: run_def)
  next
    case (Inr w')
    let ?c' = "c\<lparr>txn := Some w'\<rparr>"
    have r: "run c m = Inr ?c'" using Cons.prems Inr by (simp add: run_def)
    have t: "txn ?c' = Some w'" by simp
    from Cons.IH [OF t] r Inr show ?thesis
      by (simp split: sum.splits)
  qed
qed

text \<open>
  Claim C8. On a connection without an open transaction, \<^verbatim>\<open>tx\<close> either runs all the
  mutations of the body and commits their combined result, or, when a mutation fails or
  the commit is refused, leaves the connection as it was, persisted state included, and
  throws that error. On a connection with an open transaction it fails at once and
  changes nothing. No state with only some of the mutations applied is ever persisted.
\<close>

theorem tx_all_or_nothing:
  "(txn c = None \<longrightarrow>
      tx refuse c fn out =
        (case apply_all fn (persisted c) of
           Inr s' \<Rightarrow>
             (case refuse s' of
                None \<Rightarrow> (\<lparr>persisted = s', txn = None\<rparr>, Inr out)
              | Some e \<Rightarrow> (c, Inl e))
         | Inl e \<Rightarrow> (c, Inl e))) \<and>
   (txn c \<noteq> None \<longrightarrow>
      tx refuse c fn out =
        (c, Inl (SqliteError ''cannot start a transaction within a transaction'')))"
proof (intro conjI impI)
  assume idle: "txn c = None"
  let ?c1 = "c\<lparr>txn := Some (persisted c)\<rparr>"
  have b: "exec_BEGIN c = Inr ?c1" using idle by (simp add: exec_BEGIN_def)
  have t: "txn ?c1 = Some (persisted c)" by simp
  note rb = run_body_open [OF t, of fn out]
  show "tx refuse c fn out =
        (case apply_all fn (persisted c) of
           Inr s' \<Rightarrow>
             (case refuse s' of
                None \<Rightarrow> (\<lparr>persisted = s', txn = None\<rparr>, Inr out)
              | Some e \<Rightarrow> (c, Inl e))
         | Inl e \<Rightarrow> (c, Inl e))"
  proof (cases "apply_all fn (persisted c)")
    case (Inr s')
    with rb have "run_body ?c1 fn out = (c\<lparr>txn := Some s'\<rparr>, Inr out)" by simp
    with b Inr idle show ?thesis
      by (simp add: tx_def exec_COMMIT_def catch_rollback_def exec_ROLLBACK_def
          split: option.splits)
  next
    case (Inl e)
    from rb obtain w' where w': "txn (fst (run_body ?c1 fn out)) = Some w'" by blast
    with rb Inl have "run_body ?c1 fn out = (c\<lparr>txn := Some w'\<rparr>, Inl e)" by simp
    with b Inl idle show ?thesis
      by (simp add: tx_def catch_rollback_def exec_ROLLBACK_def)
  qed
next
  assume "txn c \<noteq> None"
  then show "tx refuse c fn out =
      (c, Inl (SqliteError ''cannot start a transaction within a transaction''))"
    by (auto simp: tx_def exec_BEGIN_def)
qed

theorem tx_all_or_nothing_witness:
  "tx never_refuse \<lparr>persisted = [1], txn = None\<rparr> [add_row 2, add_row 3] () =
     (\<lparr>persisted = [1, 2, 3], txn = None\<rparr>, Inr ()) \<and>
   tx never_refuse \<lparr>persisted = [1], txn = None\<rparr> [add_row 2, add_row 1, add_row 3] () =
     (\<lparr>persisted = [1], txn = None\<rparr>, Inl (SqliteError ''UNIQUE constraint failed'')) \<and>
   tx refuse_long \<lparr>persisted = [1], txn = None\<rparr> [add_row 2, add_row 3] () =
     (\<lparr>persisted = [1], txn = None\<rparr>, Inl (SqliteError ''database is locked'')) \<and>
   tx never_refuse \<lparr>persisted = [1], txn = Some [1, 5]\<rparr> [add_row 2] () =
     (\<lparr>persisted = [1], txn = Some [1, 5]\<rparr>,
      Inl (SqliteError ''cannot start a transaction within a transaction''))"
  using tx_all_or_nothing [of "\<lparr>persisted = [1], txn = None\<rparr>" never_refuse
      "[add_row 2, add_row 3]" "()"]
    tx_all_or_nothing [of "\<lparr>persisted = [1], txn = None\<rparr>" never_refuse
      "[add_row 2, add_row 1, add_row 3]" "()"]
    tx_all_or_nothing [of "\<lparr>persisted = [1], txn = None\<rparr>" refuse_long
      "[add_row 2, add_row 3]" "()"]
    tx_all_or_nothing [of "\<lparr>persisted = [1], txn = Some [1, 5]\<rparr>" never_refuse "[add_row 2]" "()"]
  by (simp add: add_row_def never_refuse_def refuse_long_def)

end
